theory Spec2Isabelle
  imports Main "HOL-Library.Word"
begin

unbundle bit_operations_syntax

section \<open>Data of motors.c\<close>

text \<open>
  The driver keeps its state in file-scope variables. They are collected in the record
  \<open>motors_state\<close>, which every operation takes and returns. A name of the source that
  ends in an underscore is written without it (\<open>n_motors_\<close> is \<open>n_motors\<close>), since such
  a name is not an Isabelle identifier. Every \<open>uint8_t\<close> is an \<open>8 word\<close> and the
  \<open>uint16_t\<close> setpoint a \<open>16 word\<close>, so that arithmetic wraps as in C.
\<close>

definition MOTORS_MAX :: nat where
  "MOTORS_MAX = 8"

definition MOTORS_BASE_ADDRESS :: nat where
  "MOTORS_BASE_ADDRESS = 0x52"

text \<open>
  \<open>enum BLCStatusCode\<close>: the field is filled by the bus response, so it can hold any
  value and not only the named ones; all named values fit in a byte.
\<close>

type_synonym BLCStatusCode = "8 word"

definition BLC_STATUS_UNKNOWN :: BLCStatusCode where
  "BLC_STATUS_UNKNOWN = 0"

definition BLC_STATUS_MISMATCH :: BLCStatusCode where
  "BLC_STATUS_MISMATCH = 1"

definition BLC_STATUS_STARTING :: BLCStatusCode where
  "BLC_STATUS_STARTING = 40"

definition BLC_STATUS_V3_FAST_READY :: BLCStatusCode where
  "BLC_STATUS_V3_FAST_READY = 248"

definition BLC_STATUS_V3_READY :: BLCStatusCode where
  "BLC_STATUS_V3_READY = 249"

definition BLC_STATUS_V2_READY :: BLCStatusCode where
  "BLC_STATUS_V2_READY = 250"

definition BLC_STATUS_RUNNING_REDUNDANT :: BLCStatusCode where
  "BLC_STATUS_RUNNING_REDUNDANT = 254"

definition BLC_STATUS_RUNNING :: BLCStatusCode where
  "BLC_STATUS_RUNNING = 255"

text \<open>\<open>enum BLCFeatureBitfield\<close>\<close>

definition BLC_FEATURE_EXTENDED_STATUS :: "8 word" where
  "BLC_FEATURE_EXTENDED_STATUS = push_bit 0 1"

definition BLC_FEATURE_V3 :: "8 word" where
  "BLC_FEATURE_V3 = push_bit 1 1"

definition BLC_FEATURE_20KHz :: "8 word" where
  "BLC_FEATURE_20KHz = push_bit 2 1"

text \<open>
  The three error bits \<open>BLC_ERROR_INCONSISTENT_SETTINGS\<close>, \<open>BLC_ERROR_MISSING_MOTOR\<close> and
  \<open>BLC_ERROR_EXTRA_MOTOR\<close> are declared in motors.h, which is not among the sources.
  Their values are therefore a parameter of the model. A statement that tells one bit
  from another assumes what it needs about them.
\<close>

record error_bits =
  BLC_ERROR_INCONSISTENT_SETTINGS :: "8 word"
  BLC_ERROR_MISSING_MOTOR :: "8 word"
  BLC_ERROR_EXTRA_MOTOR :: "8 word"

record MotorSetpoint =
  bits_11_to_3 :: "8 word"
  bits_2_to_0 :: "8 word"

record BLCStatus =
  current :: "8 word"
  status_code :: BLCStatusCode
  temperature :: "8 word"
  rpm :: "8 word"
  extra :: "8 word"
  voltage :: "8 word"
  i2c_errors :: "8 word"
  version_major :: "8 word"
  version_minor :: "8 word"

record motors_state =
  setpoints :: "MotorSetpoint list"
  blc_status :: "BLCStatus list"
  blc_error_bitfield :: "8 word"
  blc_feature_bitfield :: "8 word"
  n_motors :: "8 word"
  setpoint_length :: "8 word"
  comms_in_progress :: "8 word"

text \<open>Both arrays are declared with \<open>MOTORS_MAX\<close> entries.\<close>

definition arrays_ok :: "motors_state \<Rightarrow> bool" where
  "arrays_ok s \<longleftrightarrow>
     length (setpoints s) = MOTORS_MAX \<and> length (blc_status s) = MOTORS_MAX"

text \<open>
  The state at program start: static storage is zeroed, and \<open>setpoint_length_\<close> is
  initialised to \<open>sizeof(uint8_t)\<close>.
\<close>

definition zero_status :: BLCStatus where
  "zero_status =
     \<lparr>current = 0, status_code = 0, temperature = 0, rpm = 0, extra = 0, voltage = 0,
      i2c_errors = 0, version_major = 0, version_minor = 0\<rparr>"

definition initial_state :: motors_state where
  "initial_state =
     \<lparr>setpoints = replicate 8 \<lparr>bits_11_to_3 = 0, bits_2_to_0 = 0\<rparr>,
      blc_status = replicate 8 zero_status,
      blc_error_bitfield = 0,
      blc_feature_bitfield = 0,
      n_motors = 0,
      setpoint_length = 1,
      comms_in_progress = 0\<rparr>"

section \<open>The bus transport\<close>

text \<open>
  i2c.h is an external collaborator. A transaction either fails (no response, the
  transport reports an error) or delivers a status record into the receive buffer.
  The bus is a function from the address that the code passes to the outcome of the
  transaction with that address. The address is the value of the C expression
  \<open>MOTORS_BASE_ADDRESS + (i << 1)\<close>, computed in \<open>int\<close>, where it cannot overflow.
\<close>

datatype i2c_result = NoResponse | Response BLCStatus

definition motor_address :: "nat \<Rightarrow> nat" where
  "motor_address i = MOTORS_BASE_ADDRESS + push_bit 1 i"

section \<open>Accessor\<close>

definition BLCErrorBitfield :: "motors_state \<Rightarrow> 8 word" where
  "BLCErrorBitfield s = blc_error_bitfield s"

section \<open>DetectMotors\<close>

text \<open>The locals of \<open>DetectMotors\<close> that live across the probing loop.\<close>

record detect_locals =
  motors :: "8 word"
  blc_status_code :: BLCStatusCode

text \<open>
  One iteration of the loop, for slot \<open>i\<close>. A response is stored in \<open>blc_status_[i]\<close>
  by the transport; without a response the entry keeps what it held.
\<close>

definition probe_slot ::
    "error_bits \<Rightarrow> (nat \<Rightarrow> i2c_result) \<Rightarrow> nat \<Rightarrow> detect_locals \<times> motors_state
      \<Rightarrow> detect_locals \<times> motors_state" where
  "probe_slot E bus i ls =
     (case ls of (l, s) \<Rightarrow>
        (case bus (motor_address i) of
           NoResponse \<Rightarrow> (l, s)
         | Response st \<Rightarrow>
             (let s1 = s\<lparr>blc_status := (blc_status s)[i := st]\<rparr>;
                  l1 = l\<lparr>motors := motors l OR push_bit i 1\<rparr>
              in if blc_status_code l1 = BLC_STATUS_UNKNOWN
                 then (l1\<lparr>blc_status_code := status_code (blc_status s1 ! i)\<rparr>, s1)
                 else if status_code (blc_status s1 ! i) \<noteq> blc_status_code l1
                 then (l1, s1\<lparr>blc_error_bitfield :=
                              blc_error_bitfield s1 OR BLC_ERROR_INCONSISTENT_SETTINGS E\<rparr>)
                 else (l1, s1))))"

text \<open>The loop \<open>for (i = 0; i < MOTORS_MAX; i++)\<close>, over a list of slots.\<close>

definition probe_slots ::
    "error_bits \<Rightarrow> (nat \<Rightarrow> i2c_result) \<Rightarrow> nat list \<Rightarrow> detect_locals \<times> motors_state
      \<Rightarrow> detect_locals \<times> motors_state" where
  "probe_slots E bus slots ls = fold (probe_slot E bus) slots ls"

definition DetectMotors_probe ::
    "error_bits \<Rightarrow> (nat \<Rightarrow> i2c_result) \<Rightarrow> motors_state \<Rightarrow> detect_locals \<times> motors_state" where
  "DetectMotors_probe E bus s =
     probe_slots E bus [0..<MOTORS_MAX]
       (\<lparr>motors = 0, blc_status_code = BLC_STATUS_UNKNOWN\<rparr>, s)"

text \<open>
  The \<open>switch\<close> on the reference status code. The first two cases have no \<open>break\<close>
  and fall through, so each case label is a function that ends in the next one.
\<close>

definition case_V2_READY :: "motors_state \<Rightarrow> motors_state" where
  "case_V2_READY s =
     s\<lparr>blc_feature_bitfield := blc_feature_bitfield s OR BLC_FEATURE_EXTENDED_STATUS,
       setpoint_length := 2\<rparr>"

definition case_V3_READY :: "motors_state \<Rightarrow> motors_state" where
  "case_V3_READY s =
     case_V2_READY (s\<lparr>blc_feature_bitfield := blc_feature_bitfield s OR BLC_FEATURE_V3\<rparr>)"

definition case_V3_FAST_READY :: "motors_state \<Rightarrow> motors_state" where
  "case_V3_FAST_READY s =
     case_V3_READY (s\<lparr>blc_feature_bitfield := blc_feature_bitfield s OR BLC_FEATURE_20KHz\<rparr>)"

definition identify_features :: "BLCStatusCode \<Rightarrow> motors_state \<Rightarrow> motors_state" where
  "identify_features c s =
     (if c = BLC_STATUS_V3_FAST_READY then case_V3_FAST_READY s
      else if c = BLC_STATUS_V3_READY then case_V3_READY s
      else if c = BLC_STATUS_V2_READY then case_V2_READY s
      else s)"

text \<open>
  C's logical negation \<open>!\<close>, which the two tests of the motor count apply to a
  bitfield: the result is 1 for 0 and 0 for everything else.
\<close>

definition logical_not :: "int \<Rightarrow> int" where
  "logical_not x = (if x = 0 then 1 else 0)"

text \<open>
  The two tests are computed in \<open>int\<close>, to which \<open>motors\<close> and \<open>n_motors_\<close> are
  promoted. \<open>(1 << n_motors_) - 1\<close> is modelled on the unbounded integers, which is
  exact as long as the shifted value fits in \<open>int\<close> (any count up to 14 with a 16-bit
  \<open>int\<close>); beyond that C leaves the expression undefined.
\<close>

definition expected_mask :: "8 word \<Rightarrow> int" where
  "expected_mask n = push_bit (unat n) 1 - 1"

definition check_motor_count :: "error_bits \<Rightarrow> 8 word \<Rightarrow> motors_state \<Rightarrow> motors_state" where
  "check_motor_count E m s =
     (let s1 = (if expected_mask (n_motors s) AND logical_not (uint m) \<noteq> 0
                then s\<lparr>blc_error_bitfield :=
                         blc_error_bitfield s OR BLC_ERROR_MISSING_MOTOR E\<rparr>
                else s)
      in if uint m AND logical_not (expected_mask (n_motors s1)) \<noteq> 0
         then s1\<lparr>blc_error_bitfield := blc_error_bitfield s1 OR BLC_ERROR_EXTRA_MOTOR E\<rparr>
         else s1)"

text \<open>
  \<open>DetectMotors\<close>. Its inputs from outside are the bus and the byte that
  \<open>eeprom_read_byte(&eeprom.n_motors)\<close> returns.
\<close>

definition DetectMotors ::
    "error_bits \<Rightarrow> (nat \<Rightarrow> i2c_result) \<Rightarrow> 8 word \<Rightarrow> motors_state \<Rightarrow> motors_state" where
  "DetectMotors E bus eeprom_n_motors s =
     (case DetectMotors_probe E bus s of (l, s1) \<Rightarrow>
        (let s2 = identify_features (blc_status_code l) s1;
             s3 = s2\<lparr>n_motors := eeprom_n_motors\<rparr>
         in check_motor_count E (motors l) s3))"

section \<open>SetMotorSetpoint\<close>

definition SetMotorSetpoint :: "8 word \<Rightarrow> 16 word \<Rightarrow> motors_state \<Rightarrow> motors_state" where
  "SetMotorSetpoint address setpoint s =
     (if unat address \<ge> MOTORS_MAX then s
      else
        (let s1 = s\<lparr>setpoints := (setpoints s)[unat address :=
                        (setpoints s ! unat address)\<lparr>bits_2_to_0 := ucast setpoint AND 0x7\<rparr>]\<rparr>
         in s1\<lparr>setpoints := (setpoints s1)[unat address :=
                  (setpoints s1 ! unat address)
                    \<lparr>bits_11_to_3 := ucast (drop_bit 3 setpoint)\<rparr>]\<rparr>))"

text \<open>
  The decoding of the two transmitted bytes that the specification describes for the
  receiving side: the low three bits of one byte, plus the other byte shifted left by
  three. The source has no decoder; this one follows the words of the specification.
\<close>

definition spec_decode_setpoint :: "MotorSetpoint \<Rightarrow> nat" where
  "spec_decode_setpoint m = unat (bits_2_to_0 m AND 0x7) + push_bit 3 (unat (bits_11_to_3 m))"

section \<open>Transmission of the setpoints\<close>

text \<open>
  What \<open>TxMotorSetpoint\<close> hands to \<open>I2CTxThenRxThenCallback\<close>: the address, the entry
  of \<open>setpoints_\<close> that the transmit pointer refers to, the transmit length, and the
  entry of \<open>blc_status_\<close> that the receive pointer refers to. The callback is always
  \<open>TxNextMotorSetpoint\<close>.
\<close>

record i2c_transaction =
  i2c_address :: nat
  tx_index :: "8 word"
  tx_length :: "8 word"
  rx_index :: "8 word"

definition TxMotorSetpoint :: "8 word \<Rightarrow> motors_state \<Rightarrow> i2c_transaction" where
  "TxMotorSetpoint address s =
     \<lparr>i2c_address = motor_address (unat address),
      tx_index = address,
      tx_length = setpoint_length s,
      rx_index = address\<rparr>"

definition TxMotorSetpoints :: "motors_state \<Rightarrow> i2c_transaction \<times> motors_state" where
  "TxMotorSetpoints s =
     (let s1 = s\<lparr>comms_in_progress := n_motors s - 1\<rparr>
      in (TxMotorSetpoint (comms_in_progress s1) s1, s1))"

text \<open>
  The callback. The cursor is tested before the decrement and decremented in both
  branches.
\<close>

definition TxNextMotorSetpoint :: "motors_state \<Rightarrow> i2c_transaction option \<times> motors_state" where
  "TxNextMotorSetpoint s =
     (let c = comms_in_progress s;
          s1 = s\<lparr>comms_in_progress := c - 1\<rparr>
      in if c \<noteq> 0 then (Some (TxMotorSetpoint (comms_in_progress s1) s1), s1)
         else (None, s1))"

text \<open>
  The transport carrying out one transaction: it reads the transmit buffer, and stores
  a response in the receive buffer. Both buffers are entries of arrays with
  \<open>MOTORS_MAX\<close> entries; an index beyond them is an access outside the array, which C
  leaves undefined and the model reports as an error.
\<close>

datatype error = OutOfBounds

definition I2CTransfer ::
    "(nat \<Rightarrow> i2c_result) \<Rightarrow> i2c_transaction \<Rightarrow> motors_state \<Rightarrow> error + motors_state" where
  "I2CTransfer bus t s =
     (if unat (tx_index t) \<ge> MOTORS_MAX \<or> unat (rx_index t) \<ge> MOTORS_MAX
      then Inl OutOfBounds
      else
        (case bus (i2c_address t) of
           NoResponse \<Rightarrow> Inr s
         | Response st \<Rightarrow> Inr (s\<lparr>blc_status := (blc_status s)[unat (rx_index t) := st]\<rparr>)))"

text \<open>
  The chain: a transaction is carried out, then its completion runs the callback, which
  may start the next one. The result is the list of the transactions started, in
  order, and the final state, or the error that stopped the chain.
\<close>

function tx_chain ::
    "(nat \<Rightarrow> i2c_result) \<Rightarrow> i2c_transaction \<Rightarrow> motors_state
      \<Rightarrow> i2c_transaction list \<times> (error + motors_state)" where
  "tx_chain bus t s =
     (case I2CTransfer bus t s of
        Inl e \<Rightarrow> ([t], Inl e)
      | Inr s1 \<Rightarrow>
          (case TxNextMotorSetpoint s1 of
             (None, s2) \<Rightarrow> ([t], Inr s2)
           | (Some t', s2) \<Rightarrow>
               (case tx_chain bus t' s2 of (ts, r) \<Rightarrow> (t # ts, r))))"
  by pat_completeness auto

termination tx_chain
proof (relation "measure (\<lambda>(bus, t, s). unat (comms_in_progress s))")
  show "wf (measure (\<lambda>(bus, t, s). unat (comms_in_progress s)))"
    by simp
next
  fix bus t s s1 x y t'
  assume transfer: "I2CTransfer bus t s = Inr s1"
    and callback: "(x, y) = TxNextMotorSetpoint s1" and started: "x = Some t'"
  from transfer have same: "comms_in_progress s1 = comms_in_progress s"
    by (auto simp: I2CTransfer_def split: if_splits i2c_result.splits)
  from callback started
  have "comms_in_progress s1 \<noteq> 0 \<and> comms_in_progress y = comms_in_progress s1 - 1"
    by (auto simp: TxNextMotorSetpoint_def Let_def split: if_splits)
  with same have "unat (comms_in_progress y) < unat (comms_in_progress s)"
    by (simp add: unat_minus_one unat_gt_0)
  then show "((bus, t', y), (bus, t, s)) \<in> measure (\<lambda>(bus, t, s). unat (comms_in_progress s))"
    by simp
qed

declare tx_chain.simps [simp del]

text \<open>The whole pipeline: \<open>TxMotorSetpoints\<close>, then the chain of completions.\<close>

definition transmit ::
    "(nat \<Rightarrow> i2c_result) \<Rightarrow> motors_state \<Rightarrow> i2c_transaction list \<times> (error + motors_state)" where
  "transmit bus s = (case TxMotorSetpoints s of (t, s1) \<Rightarrow> tx_chain bus t s1)"

section \<open>Sequences of operations\<close>

text \<open>
  The outer control loop calls the public operations of the module in any order. An
  operation is one such call with its arguments and the inputs it takes from outside; a
  run carries the state through a list of them and stops at the first error.
  Reading the error bitfield with \<open>BLCErrorBitfield\<close> leaves the state as it is.
\<close>

datatype operation =
    CallDetectMotors "nat \<Rightarrow> i2c_result" "8 word"
  | CallSetMotorSetpoint "8 word" "16 word"
  | CallTxMotorSetpoints "nat \<Rightarrow> i2c_result"
  | CallBLCErrorBitfield

fun apply_operation :: "error_bits \<Rightarrow> operation \<Rightarrow> motors_state \<Rightarrow> error + motors_state" where
  "apply_operation E (CallDetectMotors bus n) s = Inr (DetectMotors E bus n s)"
| "apply_operation E (CallSetMotorSetpoint address setpoint) s =
     Inr (SetMotorSetpoint address setpoint s)"
| "apply_operation E (CallTxMotorSetpoints bus) s = snd (transmit bus s)"
| "apply_operation E CallBLCErrorBitfield s = Inr s"

fun run_operations ::
    "error_bits \<Rightarrow> operation list \<Rightarrow> motors_state \<Rightarrow> error + motors_state" where
  "run_operations E [] s = Inr s"
| "run_operations E (x # xs) s =
     (case apply_operation E x s of
        Inl e \<Rightarrow> Inl e
      | Inr s1 \<Rightarrow> run_operations E xs s1)"

section \<open>Concrete inputs\<close>

text \<open>
  For evaluating the operations at concrete inputs: a status record with a given status
  code, and one assignment of the error bits of motors.h, three distinct single bits.
\<close>

definition status_with :: "BLCStatusCode \<Rightarrow> BLCStatus" where
  "status_with c = zero_status\<lparr>status_code := c\<rparr>"

definition example_error_bits :: error_bits where
  "example_error_bits =
     \<lparr>BLC_ERROR_INCONSISTENT_SETTINGS = push_bit 0 1,
      BLC_ERROR_MISSING_MOTOR = push_bit 1 1,
      BLC_ERROR_EXTRA_MOTOR = push_bit 2 1\<rparr>"

section \<open>The probing loop of DetectMotors\<close>

lemma probe_slots_Nil: "probe_slots E bus [] ls = ls"
  by (simp add: probe_slots_def)

lemma probe_slots_Cons:
  "probe_slots E bus (i # slots) ls = probe_slots E bus slots (probe_slot E bus i ls)"
  by (simp add: probe_slots_def)

lemma probe_slots_append:
  "probe_slots E bus (xs @ ys) ls = probe_slots E bus ys (probe_slots E bus xs ls)"
  by (simp add: probe_slots_def)

lemma probe_slot_silent:
  "bus (motor_address i) = NoResponse \<Longrightarrow> probe_slot E bus i ls = ls"
  by (cases ls) (simp add: probe_slot_def)

lemma probe_slot_first:
  assumes "bus (motor_address i) = Response st" and "i < length (blc_status (snd ls))"
    and "blc_status_code (fst ls) = BLC_STATUS_UNKNOWN"
  shows "blc_status_code (fst (probe_slot E bus i ls)) = status_code st"
    and "blc_error_bitfield (snd (probe_slot E bus i ls)) = blc_error_bitfield (snd ls)"
  using assms by (cases ls; simp add: probe_slot_def Let_def)+

lemma probe_slot_compared:
  assumes "bus (motor_address i) = Response st" and "i < length (blc_status (snd ls))"
    and "blc_status_code (fst ls) \<noteq> BLC_STATUS_UNKNOWN"
  shows "blc_status_code (fst (probe_slot E bus i ls)) = blc_status_code (fst ls)"
    and "blc_error_bitfield (snd (probe_slot E bus i ls)) =
           (if status_code st \<noteq> blc_status_code (fst ls)
            then blc_error_bitfield (snd ls) OR BLC_ERROR_INCONSISTENT_SETTINGS E
            else blc_error_bitfield (snd ls))"
  using assms by (cases ls; simp add: probe_slot_def Let_def)+

lemma probe_slot_present:
  "bus (motor_address i) = Response st \<Longrightarrow>
     motors (fst (probe_slot E bus i ls)) = motors (fst ls) OR push_bit i 1"
  by (cases ls) (simp add: probe_slot_def Let_def)

lemma probe_slot_frame:
  "blc_feature_bitfield (snd (probe_slot E bus i ls)) = blc_feature_bitfield (snd ls)"
  "setpoint_length (snd (probe_slot E bus i ls)) = setpoint_length (snd ls)"
  "length (blc_status (snd (probe_slot E bus i ls))) = length (blc_status (snd ls))"
  by (cases ls; simp add: probe_slot_def Let_def split: i2c_result.splits)+

lemma probe_slot_error:
  "blc_error_bitfield (snd (probe_slot E bus i ls)) = blc_error_bitfield (snd ls) \<or>
   blc_error_bitfield (snd (probe_slot E bus i ls)) =
     blc_error_bitfield (snd ls) OR BLC_ERROR_INCONSISTENT_SETTINGS E"
  by (cases ls) (simp add: probe_slot_def Let_def split: i2c_result.splits)

lemma probe_slots_frame:
  "blc_feature_bitfield (snd (probe_slots E bus slots ls)) = blc_feature_bitfield (snd ls)"
  "setpoint_length (snd (probe_slots E bus slots ls)) = setpoint_length (snd ls)"
  "length (blc_status (snd (probe_slots E bus slots ls))) = length (blc_status (snd ls))"
  by (induction slots arbitrary: ls; simp add: probe_slots_Nil probe_slots_Cons probe_slot_frame)+

lemma probe_slots_error:
  "blc_error_bitfield (snd (probe_slots E bus slots ls)) = blc_error_bitfield (snd ls) \<or>
   blc_error_bitfield (snd (probe_slots E bus slots ls)) =
     blc_error_bitfield (snd ls) OR BLC_ERROR_INCONSISTENT_SETTINGS E"
proof (induction slots arbitrary: ls)
  case Nil
  show ?case by (simp add: probe_slots_Nil)
next
  case (Cons i slots)
  from Cons.IH [of "probe_slot E bus i ls"] probe_slot_error [of E bus i ls]
  show ?case
    by (auto simp: probe_slots_Cons or.assoc)
qed


text \<open>Every responder among the slots reports the code \<open>c\<close>.\<close>

lemma probe_slots_uniform:
  assumes "\<forall>i\<in>set slots. i < length (blc_status (snd ls))"
    and "\<forall>i\<in>set slots. \<forall>st. bus (motor_address i) = Response st \<longrightarrow> status_code st = c"
    and "blc_status_code (fst ls) = BLC_STATUS_UNKNOWN \<or> blc_status_code (fst ls) = c"
  shows "blc_error_bitfield (snd (probe_slots E bus slots ls)) = blc_error_bitfield (snd ls)
       \<and> (blc_status_code (fst (probe_slots E bus slots ls)) = BLC_STATUS_UNKNOWN
          \<or> blc_status_code (fst (probe_slots E bus slots ls)) = c)"
  using assms
proof (induction slots arbitrary: ls)
  case Nil
  then show ?case by (simp add: probe_slots_Nil)
next
  case (Cons i slots)
  let ?ls = "probe_slot E bus i ls"
  have step: "blc_error_bitfield (snd ?ls) = blc_error_bitfield (snd ls)
      \<and> (blc_status_code (fst ?ls) = BLC_STATUS_UNKNOWN \<or> blc_status_code (fst ?ls) = c)"
  proof (cases "bus (motor_address i)")
    case NoResponse
    with Cons.prems(3) show ?thesis by (simp add: probe_slot_silent)
  next
    case (Response st)
    with Cons.prems(2) have c: "status_code st = c" by simp
    from Cons.prems(1) have len: "i < length (blc_status (snd ls))" by simp
    show ?thesis
    proof (cases "blc_status_code (fst ls) = BLC_STATUS_UNKNOWN")
      case True
      with probe_slot_first [where bus = bus and E = E, OF Response len] c show ?thesis by simp
    next
      case False
      with Cons.prems(3) have "blc_status_code (fst ls) = c" by simp
      with probe_slot_compared [where bus = bus and E = E, OF Response len False] c show ?thesis by simp
    qed
  qed
  have "blc_error_bitfield (snd (probe_slots E bus slots ?ls)) = blc_error_bitfield (snd ?ls)
       \<and> (blc_status_code (fst (probe_slots E bus slots ?ls)) = BLC_STATUS_UNKNOWN
          \<or> blc_status_code (fst (probe_slots E bus slots ?ls)) = c)"
    using Cons.prems step by (intro Cons.IH) (simp_all add: probe_slot_frame)
  with step show ?case by (simp add: probe_slots_Cons)
qed

text \<open>Once the reference code is not \<open>BLC_STATUS_UNKNOWN\<close>, the loop keeps it.\<close>

lemma probe_slots_reference_kept:
  assumes "\<forall>i\<in>set slots. i < length (blc_status (snd ls))"
    and "blc_status_code (fst ls) \<noteq> BLC_STATUS_UNKNOWN"
  shows "blc_status_code (fst (probe_slots E bus slots ls)) = blc_status_code (fst ls)"
  using assms
proof (induction slots arbitrary: ls)
  case Nil
  then show ?case by (simp add: probe_slots_Nil)
next
  case (Cons i slots)
  let ?ls = "probe_slot E bus i ls"
  from Cons.prems(1) have len: "i < length (blc_status (snd ls))" by simp
  have step: "blc_status_code (fst ?ls) = blc_status_code (fst ls)"
  proof (cases "bus (motor_address i)")
    case NoResponse
    then show ?thesis by (simp add: probe_slot_silent)
  next
    case (Response st)
    from probe_slot_compared(1) [where bus = bus and E = E, OF Response len Cons.prems(2)] show ?thesis .
  qed
  have "blc_status_code (fst (probe_slots E bus slots ?ls)) = blc_status_code (fst ?ls)"
    using Cons.prems step by (intro Cons.IH) (simp_all add: probe_slot_frame)
  with step show ?case by (simp add: probe_slots_Cons)
qed

text \<open>The loop only ever adds the inconsistency bits, so they stay once they are set.\<close>

lemma probe_slots_inconsistent_kept:
  assumes "blc_error_bitfield (snd ls) AND BLC_ERROR_INCONSISTENT_SETTINGS E
             = BLC_ERROR_INCONSISTENT_SETTINGS E"
  shows "blc_error_bitfield (snd (probe_slots E bus slots ls))
           AND BLC_ERROR_INCONSISTENT_SETTINGS E = BLC_ERROR_INCONSISTENT_SETTINGS E"
  using probe_slots_error [of E bus slots ls] assms
  by (auto simp: bit.conj_disj_distrib2)

text \<open>With a reference code, a responder with another code raises the inconsistency.\<close>

lemma probe_slots_differing:
  assumes "\<forall>i\<in>set slots. i < length (blc_status (snd ls))"
    and "blc_status_code (fst ls) \<noteq> BLC_STATUS_UNKNOWN"
    and "j \<in> set slots" and "bus (motor_address j) = Response st"
    and "status_code st \<noteq> blc_status_code (fst ls)"
  shows "blc_error_bitfield (snd (probe_slots E bus slots ls))
           AND BLC_ERROR_INCONSISTENT_SETTINGS E = BLC_ERROR_INCONSISTENT_SETTINGS E"
proof -
  from assms(3) obtain xs ys where split: "slots = xs @ j # ys"
    by (auto simp: in_set_conv_decomp)
  let ?ls = "probe_slots E bus xs ls"
  from assms(1) split have "\<forall>i\<in>set xs. i < length (blc_status (snd ls))" by simp
  then have ref: "blc_status_code (fst ?ls) = blc_status_code (fst ls)"
    using assms(2) by (rule probe_slots_reference_kept)
  from assms(1) split have len: "j < length (blc_status (snd ?ls))"
    by (simp add: probe_slots_frame)
  from ref assms(2) have known: "blc_status_code (fst ?ls) \<noteq> BLC_STATUS_UNKNOWN" by simp
  from probe_slot_compared(2) [where bus = bus and E = E, OF assms(4) len known] ref assms(5)
  have "blc_error_bitfield (snd (probe_slot E bus j ?ls))
          AND BLC_ERROR_INCONSISTENT_SETTINGS E = BLC_ERROR_INCONSISTENT_SETTINGS E"
    by simp
  then have "blc_error_bitfield (snd (probe_slots E bus ys (probe_slot E bus j ?ls)))
          AND BLC_ERROR_INCONSISTENT_SETTINGS E = BLC_ERROR_INCONSISTENT_SETTINGS E"
    by (rule probe_slots_inconsistent_kept)
  then show ?thesis
    by (simp add: split probe_slots_append probe_slots_Cons)
qed

section \<open>The motor count check and the error bitfield of DetectMotors\<close>

lemma expected_mask_low_bit: "expected_mask n AND 1 \<noteq> 0 \<longleftrightarrow> n \<noteq> 0"
proof -
  have odd: "(2 * k - 1) mod 2 = (1::int)" for k by presburger
  have "(push_bit k 1 - 1 :: int) AND 1 \<noteq> 0 \<longleftrightarrow> k \<noteq> 0" for k :: nat
    by (cases k) (simp_all add: and_one_eq odd)
  then show ?thesis
    by (simp add: expected_mask_def unat_gt_0)
qed

lemma expected_mask_zero: "expected_mask n = 0 \<longleftrightarrow> n = 0"
proof -
  have neq: "2 * k \<noteq> (1::int)" for k by presburger
  have "(push_bit k 1 - 1 :: int) = 0 \<longleftrightarrow> k = 0" for k :: nat
    by (cases k) (simp_all add: neq)
  then show ?thesis
    by (simp add: expected_mask_def unat_eq_0)
qed

lemma uint_low_bit: "uint (m::8 word) AND 1 \<noteq> 0 \<longleftrightarrow> bit m 0"
proof -
  have "uint m AND 1 \<noteq> 0 \<longleftrightarrow> bit (uint m) 0"
    by (simp add: and_one_eq bit_0 mod_2_eq_odd)
  then show ?thesis
    by (simp add: bit_uint_iff)
qed

lemma or_disjoint_and:
  "(i::8 word) AND b = 0 \<Longrightarrow> (x OR b) AND i = x AND i"
proof -
  assume "i AND b = 0"
  then have "b AND i = 0"
    by (simp only: and.commute)
  then show ?thesis
    by (simp add: bit.conj_disj_distrib2)
qed

text \<open>
  What the two tests of \<open>check_motor_count\<close> amount to: the first holds only when no
  slot at all is present and motors are expected, the second only when none is expected
  and slot 0 is present.
\<close>

lemma missing_test:
  "expected_mask n AND logical_not (uint (m::8 word)) \<noteq> 0 \<longleftrightarrow> m = 0 \<and> n \<noteq> 0"
  using expected_mask_low_bit [of n]
  by (simp add: logical_not_def uint_0_iff)

lemma extra_test:
  "uint (m::8 word) AND logical_not (expected_mask n) \<noteq> 0 \<longleftrightarrow> n = 0 \<and> bit m 0"
  using uint_low_bit [of m]
  by (simp add: logical_not_def expected_mask_zero)

lemma check_motor_count_error:
  "blc_error_bitfield (check_motor_count E m s) =
     blc_error_bitfield s
       OR (if m = 0 \<and> n_motors s \<noteq> 0 then BLC_ERROR_MISSING_MOTOR E else 0)
       OR (if n_motors s = 0 \<and> bit m 0 then BLC_ERROR_EXTRA_MOTOR E else 0)"
  by (simp add: check_motor_count_def Let_def missing_test extra_test)

lemma check_motor_count_frame:
  "blc_feature_bitfield (check_motor_count E m s) = blc_feature_bitfield s"
  "setpoint_length (check_motor_count E m s) = setpoint_length s"
  by (simp_all add: check_motor_count_def Let_def)

lemma identify_features_error:
  "blc_error_bitfield (identify_features c s) = blc_error_bitfield s"
  by (simp add: identify_features_def case_V3_FAST_READY_def case_V3_READY_def
      case_V2_READY_def)

lemma DetectMotors_error:
  "blc_error_bitfield (DetectMotors E bus n s) =
     blc_error_bitfield (snd (DetectMotors_probe E bus s))
       OR (if motors (fst (DetectMotors_probe E bus s)) = 0 \<and> n \<noteq> 0
           then BLC_ERROR_MISSING_MOTOR E else 0)
       OR (if n = 0 \<and> bit (motors (fst (DetectMotors_probe E bus s))) 0
           then BLC_ERROR_EXTRA_MOTOR E else 0)"
  by (simp add: DetectMotors_def Let_def check_motor_count_error identify_features_error
      split: prod.splits)

lemma DetectMotors_inconsistent_bits:
  assumes "BLC_ERROR_INCONSISTENT_SETTINGS E AND BLC_ERROR_MISSING_MOTOR E = 0"
    and "BLC_ERROR_INCONSISTENT_SETTINGS E AND BLC_ERROR_EXTRA_MOTOR E = 0"
  shows "blc_error_bitfield (DetectMotors E bus n s) AND BLC_ERROR_INCONSISTENT_SETTINGS E =
     blc_error_bitfield (snd (DetectMotors_probe E bus s)) AND BLC_ERROR_INCONSISTENT_SETTINGS E"
  using assms
  by (simp add: DetectMotors_error or_disjoint_and)

lemma slots_unfolded: "[0..<MOTORS_MAX] = [0, 1, 2, 3, 4, 5, 6, 7]"
  by (simp add: MOTORS_MAX_def upt_rec)

lemma slots_split:
  assumes "i < MOTORS_MAX"
  shows "[0..<MOTORS_MAX] = [0..<i] @ i # [Suc i..<MOTORS_MAX]"
proof -
  from assms have "[0..<MOTORS_MAX] = [0..<i] @ [i..<MOTORS_MAX]"
    using upt_add_eq_append [of 0 i "MOTORS_MAX - i"] by simp
  with assms show ?thesis
    by (simp add: upt_conv_Cons)
qed

text \<open>Presence: a responder's bit is set in \<open>motors\<close>, and no bit is ever cleared.\<close>

lemma probe_slot_motors_kept:
  "bit (motors (fst ls)) k \<Longrightarrow> bit (motors (fst (probe_slot E bus i ls))) k"
  by (cases ls) (simp add: probe_slot_def Let_def bit_or_iff split: i2c_result.splits)

lemma probe_slots_motors_kept:
  "bit (motors (fst ls)) k \<Longrightarrow> bit (motors (fst (probe_slots E bus slots ls))) k"
  by (induction slots arbitrary: ls)
    (simp_all add: probe_slots_Nil probe_slots_Cons probe_slot_motors_kept)

lemma probe_slots_present:
  assumes "k \<in> set slots" and "bus (motor_address k) = Response st" and "k < MOTORS_MAX"
  shows "bit (motors (fst (probe_slots E bus slots ls))) k"
proof -
  from assms(1) obtain xs ys where split: "slots = xs @ k # ys"
    by (auto simp: in_set_conv_decomp)
  from assms(3) have "bit (push_bit k 1 :: 8 word) k"
    by (simp add: bit_push_bit_iff bit_1_iff MOTORS_MAX_def del: push_bit_of_1)
  then have "bit (motors (fst (probe_slot E bus k (probe_slots E bus xs ls)))) k"
    by (simp add: probe_slot_present [where bus = bus, OF assms(2)] bit_or_iff)
  then show ?thesis
    by (simp add: split probe_slots_append probe_slots_Cons probe_slots_motors_kept)
qed

text \<open>
  The loop seen from the first responder with a code other than \<open>BLC_STATUS_UNKNOWN\<close>:
  up to and including that slot the error bitfield is untouched, the slot's code becomes
  the reference, and the rest of the loop runs with that reference.
\<close>

lemma DetectMotors_probe_from_reference:
  assumes ok: "arrays_ok s" and i: "i < MOTORS_MAX"
    and resp: "bus (motor_address i) = Response sti"
    and code: "status_code sti \<noteq> BLC_STATUS_UNKNOWN"
    and before: "\<forall>k<i. \<forall>st. bus (motor_address k) = Response st
                   \<longrightarrow> status_code st = BLC_STATUS_UNKNOWN"
  shows "\<exists>ls. DetectMotors_probe E bus s = probe_slots E bus [Suc i..<MOTORS_MAX] ls
            \<and> blc_status_code (fst ls) = status_code sti
            \<and> blc_error_bitfield (snd ls) = blc_error_bitfield s
            \<and> length (blc_status (snd ls)) = MOTORS_MAX"
proof -
  let ?ls0 = "(\<lparr>motors = 0, blc_status_code = BLC_STATUS_UNKNOWN\<rparr>, s)"
  let ?ls1 = "probe_slots E bus [0..<i] ?ls0"
  let ?ls2 = "probe_slot E bus i ?ls1"
  from ok have len0: "length (blc_status s) = MOTORS_MAX"
    by (simp add: arrays_ok_def)
  have "blc_error_bitfield (snd ?ls1) = blc_error_bitfield (snd ?ls0)
      \<and> (blc_status_code (fst ?ls1) = BLC_STATUS_UNKNOWN
         \<or> blc_status_code (fst ?ls1) = BLC_STATUS_UNKNOWN)"
    using i before len0 by (intro probe_slots_uniform) simp_all
  then have err1: "blc_error_bitfield (snd ?ls1) = blc_error_bitfield s"
    and code1: "blc_status_code (fst ?ls1) = BLC_STATUS_UNKNOWN"
    by simp_all
  from i len0 have len1: "i < length (blc_status (snd ?ls1))"
    by (simp add: probe_slots_frame)
  from probe_slot_first [where bus = bus and E = E, OF resp len1 code1] err1
  have "blc_status_code (fst ?ls2) = status_code sti"
    and "blc_error_bitfield (snd ?ls2) = blc_error_bitfield s"
    by simp_all
  moreover have "length (blc_status (snd ?ls2)) = MOTORS_MAX"
    by (simp add: probe_slot_frame probe_slots_frame len0)
  moreover have "DetectMotors_probe E bus s = probe_slots E bus [Suc i..<MOTORS_MAX] ?ls2"
    by (simp add: DetectMotors_probe_def slots_split [OF i] probe_slots_append
        probe_slots_Cons)
  ultimately show ?thesis by blast
qed


lemma or_keeps_and: "(a::8 word) AND i = i \<Longrightarrow> (a OR b) AND i = i"
proof -
  assume h: "a AND i = i"
  have "(a OR b) AND (a AND i) = a AND i"
    by (auto simp: bit_eq_iff bit_and_iff bit_or_iff)
  then show ?thesis
    by (simp only: h)
qed

lemma DetectMotors_inconsistent_stays:
  assumes "blc_error_bitfield (snd (DetectMotors_probe E bus s))
             AND BLC_ERROR_INCONSISTENT_SETTINGS E = BLC_ERROR_INCONSISTENT_SETTINGS E"
  shows "blc_error_bitfield (DetectMotors E bus n s) AND BLC_ERROR_INCONSISTENT_SETTINGS E
           = BLC_ERROR_INCONSISTENT_SETTINGS E"
  using assms by (simp add: DetectMotors_error or_keeps_and)

lemma motor_address_eq: "motor_address i = motor_address j \<longleftrightarrow> i = j"
  by (simp add: motor_address_def push_bit_eq_mult)

lemmas detect_eval =
  DetectMotors_def DetectMotors_probe_def probe_slots_def slots_unfolded probe_slot_def
  motor_address_eq initial_state_def status_with_def zero_status_def
  Let_def BLC_STATUS_UNKNOWN_def identify_features_def check_motor_count_def
  expected_mask_def logical_not_def BLC_STATUS_V3_FAST_READY_def BLC_STATUS_V3_READY_def
  BLC_STATUS_V2_READY_def BLC_STATUS_RUNNING_def
  case_V2_READY_def case_V3_READY_def case_V3_FAST_READY_def
  BLC_FEATURE_EXTENDED_STATUS_def BLC_FEATURE_V3_def BLC_FEATURE_20KHz_def
  example_error_bits_def

section \<open>Missing and extra motors\<close>

text \<open>
  C1: the claim is that a discovery pass with exactly one of the \<open>N\<close> expected slots
  silent sets the missing-motor bit and not the extra-motor bit. The code tests
  \<open>((1 << n_motors_) - 1) & !motors\<close>, with the logical negation, so the missing-motor
  bit is added only when no slot responds at all (\<open>missing_test\<close>). With two motors
  expected and only slot 0 responding, the pass from the initial state leaves the error
  bitfield empty, whatever the values of the error bits are.
\<close>

theorem DetectMotors_one_missing_not_reported:
  "blc_error_bitfield
     (DetectMotors E
        (\<lambda>a. if a = motor_address 0 then Response (status_with BLC_STATUS_V2_READY)
             else NoResponse)
        2 initial_state) = 0"
  by (simp add: detect_eval)

text \<open>
  C2: the claim is that a responding slot with an index of \<open>N\<close> or more sets the
  extra-motor bit. The code tests \<open>motors & !((1 << n_motors_) - 1)\<close>, with the logical
  negation, so the extra-motor bit is added only when no motor is expected and slot 0
  responds (\<open>extra_test\<close>). With two motors expected and slots 0, 1 and 2 responding,
  the pass from the initial state leaves the error bitfield empty.
\<close>

theorem DetectMotors_extra_not_reported:
  "blc_error_bitfield
     (DetectMotors E
        (\<lambda>a. if a = motor_address 0 \<or> a = motor_address 1 \<or> a = motor_address 2
             then Response (status_with BLC_STATUS_V2_READY) else NoResponse)
        2 initial_state) = 0"
  by (simp add: detect_eval)

section \<open>Inconsistent settings\<close>

lemma DetectMotors_present:
  assumes "k < MOTORS_MAX" and "bus (motor_address k) = Response st"
  shows "bit (motors (fst (DetectMotors_probe E bus s))) k"
  using assms by (auto simp: DetectMotors_probe_def intro: probe_slots_present)

lemma DetectMotors_uniform:
  assumes ok: "arrays_ok s"
    and d1: "BLC_ERROR_INCONSISTENT_SETTINGS E AND BLC_ERROR_MISSING_MOTOR E = 0"
    and d2: "BLC_ERROR_INCONSISTENT_SETTINGS E AND BLC_ERROR_EXTRA_MOTOR E = 0"
    and same: "\<forall>k<MOTORS_MAX. \<forall>st. bus (motor_address k) = Response st
                 \<longrightarrow> status_code st = c"
  shows "blc_error_bitfield (DetectMotors E bus n s) AND BLC_ERROR_INCONSISTENT_SETTINGS E
           = blc_error_bitfield s AND BLC_ERROR_INCONSISTENT_SETTINGS E"
proof -
  let ?ls0 = "(\<lparr>motors = 0, blc_status_code = BLC_STATUS_UNKNOWN\<rparr>, s)"
  from ok have len: "length (blc_status s) = MOTORS_MAX"
    by (simp add: arrays_ok_def)
  have "blc_error_bitfield (snd (probe_slots E bus [0..<MOTORS_MAX] ?ls0))
          = blc_error_bitfield (snd ?ls0)
      \<and> (blc_status_code (fst (probe_slots E bus [0..<MOTORS_MAX] ?ls0)) = BLC_STATUS_UNKNOWN
         \<or> blc_status_code (fst (probe_slots E bus [0..<MOTORS_MAX] ?ls0)) = c)"
    using same len by (intro probe_slots_uniform) simp_all
  then have "blc_error_bitfield (snd (DetectMotors_probe E bus s)) = blc_error_bitfield s"
    by (simp add: DetectMotors_probe_def)
  with DetectMotors_inconsistent_bits [OF d1 d2, of bus n s] show ?thesis
    by simp
qed

lemma DetectMotors_reference:
  assumes ok: "arrays_ok s" and i: "i < MOTORS_MAX"
    and resp: "bus (motor_address i) = Response sti"
    and known: "status_code sti \<noteq> BLC_STATUS_UNKNOWN"
    and before: "\<forall>k<i. \<forall>st. bus (motor_address k) = Response st
                   \<longrightarrow> status_code st = BLC_STATUS_UNKNOWN"
  shows "blc_status_code (fst (DetectMotors_probe E bus s)) = status_code sti"
proof -
  from DetectMotors_probe_from_reference [where bus = bus and E = E, OF ok i resp known before]
  obtain ls where probe: "DetectMotors_probe E bus s = probe_slots E bus [Suc i..<MOTORS_MAX] ls"
    and ref: "blc_status_code (fst ls) = status_code sti"
    and len: "length (blc_status (snd ls)) = MOTORS_MAX"
    by blast
  from len have "\<forall>k\<in>set [Suc i..<MOTORS_MAX]. k < length (blc_status (snd ls))"
    by simp
  from probe_slots_reference_kept [OF this, of E bus] ref known probe
  show ?thesis by simp
qed

lemma DetectMotors_later_differing:
  assumes ok: "arrays_ok s" and i: "i < MOTORS_MAX"
    and resp: "bus (motor_address i) = Response sti"
    and known: "status_code sti \<noteq> BLC_STATUS_UNKNOWN"
    and before: "\<forall>k<i. \<forall>st. bus (motor_address k) = Response st
                   \<longrightarrow> status_code st = BLC_STATUS_UNKNOWN"
    and j: "i < j" "j < MOTORS_MAX" and later: "bus (motor_address j) = Response st"
    and differs: "status_code st \<noteq> status_code sti"
  shows "blc_error_bitfield (DetectMotors E bus n s) AND BLC_ERROR_INCONSISTENT_SETTINGS E
           = BLC_ERROR_INCONSISTENT_SETTINGS E"
proof -
  from DetectMotors_probe_from_reference [where bus = bus and E = E, OF ok i resp known before]
  obtain ls where probe: "DetectMotors_probe E bus s = probe_slots E bus [Suc i..<MOTORS_MAX] ls"
    and ref: "blc_status_code (fst ls) = status_code sti"
    and len: "length (blc_status (snd ls)) = MOTORS_MAX"
    by blast
  from len have bound: "\<forall>k\<in>set [Suc i..<MOTORS_MAX]. k < length (blc_status (snd ls))"
    by simp
  from ref known have known': "blc_status_code (fst ls) \<noteq> BLC_STATUS_UNKNOWN"
    by simp
  from j have mem: "j \<in> set [Suc i..<MOTORS_MAX]"
    by simp
  from differs ref have differs': "status_code st \<noteq> blc_status_code (fst ls)"
    by simp
  from probe_slots_differing [where bus = bus and E = E, OF bound known' mem later differs'] probe
  show ?thesis
    by (simp add: DetectMotors_inconsistent_stays)
qed

lemma DetectMotors_later_uniform:
  assumes ok: "arrays_ok s"
    and d1: "BLC_ERROR_INCONSISTENT_SETTINGS E AND BLC_ERROR_MISSING_MOTOR E = 0"
    and d2: "BLC_ERROR_INCONSISTENT_SETTINGS E AND BLC_ERROR_EXTRA_MOTOR E = 0"
    and i: "i < MOTORS_MAX"
    and resp: "bus (motor_address i) = Response sti"
    and known: "status_code sti \<noteq> BLC_STATUS_UNKNOWN"
    and before: "\<forall>k<i. \<forall>st. bus (motor_address k) = Response st
                   \<longrightarrow> status_code st = BLC_STATUS_UNKNOWN"
    and after: "\<forall>k. i < k \<and> k < MOTORS_MAX
                  \<longrightarrow> (\<forall>st. bus (motor_address k) = Response st
                         \<longrightarrow> status_code st = status_code sti)"
  shows "blc_error_bitfield (DetectMotors E bus n s) AND BLC_ERROR_INCONSISTENT_SETTINGS E
           = blc_error_bitfield s AND BLC_ERROR_INCONSISTENT_SETTINGS E"
proof -
  from DetectMotors_probe_from_reference [where bus = bus and E = E, OF ok i resp known before]
  obtain ls where probe: "DetectMotors_probe E bus s = probe_slots E bus [Suc i..<MOTORS_MAX] ls"
    and ref: "blc_status_code (fst ls) = status_code sti"
    and err: "blc_error_bitfield (snd ls) = blc_error_bitfield s"
    and len: "length (blc_status (snd ls)) = MOTORS_MAX"
    by blast
  have "blc_error_bitfield (snd (probe_slots E bus [Suc i..<MOTORS_MAX] ls))
          = blc_error_bitfield (snd ls)
      \<and> (blc_status_code (fst (probe_slots E bus [Suc i..<MOTORS_MAX] ls)) = BLC_STATUS_UNKNOWN
         \<or> blc_status_code (fst (probe_slots E bus [Suc i..<MOTORS_MAX] ls)) = status_code sti)"
  proof (intro probe_slots_uniform)
    show "\<forall>k\<in>set [Suc i..<MOTORS_MAX]. k < length (blc_status (snd ls))"
      using len by simp
    show "\<forall>k\<in>set [Suc i..<MOTORS_MAX]. \<forall>st. bus (motor_address k) = Response st
            \<longrightarrow> status_code st = status_code sti"
    proof (intro ballI allI impI)
      fix k st
      assume "k \<in> set [Suc i..<MOTORS_MAX]" and r: "bus (motor_address k) = Response st"
      then have "i < k \<and> k < MOTORS_MAX" by simp
      with after r show "status_code st = status_code sti" by blast
    qed
    show "blc_status_code (fst ls) = BLC_STATUS_UNKNOWN
        \<or> blc_status_code (fst ls) = status_code sti"
      using ref by simp
  qed
  with probe err
  have "blc_error_bitfield (snd (DetectMotors_probe E bus s)) = blc_error_bitfield s"
    by simp
  with DetectMotors_inconsistent_bits [OF d1 d2, of bus n s] show ?thesis
    by simp
qed

text \<open>
  C6, as the code has it. When every responding slot reports the same status code, a
  discovery pass leaves the inconsistency bits of the error bitfield as they were. The
  first responding slot whose code is not \<open>BLC_STATUS_UNKNOWN\<close> establishes the
  reference code, and any later responding slot with a code that differs from it sets
  the inconsistency bits. The claim says this of the first responding slot whatever its
  code, which fails when that code is \<open>BLC_STATUS_UNKNOWN\<close>.
\<close>

theorem DetectMotors_inconsistent_settings:
  assumes ok: "arrays_ok s"
    and d1: "BLC_ERROR_INCONSISTENT_SETTINGS E AND BLC_ERROR_MISSING_MOTOR E = 0"
    and d2: "BLC_ERROR_INCONSISTENT_SETTINGS E AND BLC_ERROR_EXTRA_MOTOR E = 0"
  shows "((\<forall>k<MOTORS_MAX. \<forall>st. bus (motor_address k) = Response st \<longrightarrow> status_code st = c)
          \<longrightarrow> blc_error_bitfield (DetectMotors E bus n s) AND BLC_ERROR_INCONSISTENT_SETTINGS E
               = blc_error_bitfield s AND BLC_ERROR_INCONSISTENT_SETTINGS E)
       \<and> (i < MOTORS_MAX \<and> bus (motor_address i) = Response sti
            \<and> status_code sti \<noteq> BLC_STATUS_UNKNOWN
            \<and> (\<forall>k<i. \<forall>st. bus (motor_address k) = Response st
                   \<longrightarrow> status_code st = BLC_STATUS_UNKNOWN)
          \<longrightarrow> blc_status_code (fst (DetectMotors_probe E bus s)) = status_code sti
              \<and> (\<forall>j st. i < j \<and> j < MOTORS_MAX \<and> bus (motor_address j) = Response st
                     \<and> status_code st \<noteq> status_code sti
                   \<longrightarrow> blc_error_bitfield (DetectMotors E bus n s)
                         AND BLC_ERROR_INCONSISTENT_SETTINGS E
                       = BLC_ERROR_INCONSISTENT_SETTINGS E))"
proof (intro conjI impI allI)
  assume "\<forall>k<MOTORS_MAX. \<forall>st. bus (motor_address k) = Response st \<longrightarrow> status_code st = c"
  with ok d1 d2
  show "blc_error_bitfield (DetectMotors E bus n s) AND BLC_ERROR_INCONSISTENT_SETTINGS E
          = blc_error_bitfield s AND BLC_ERROR_INCONSISTENT_SETTINGS E"
    by (rule DetectMotors_uniform)
next
  assume first: "i < MOTORS_MAX \<and> bus (motor_address i) = Response sti
      \<and> status_code sti \<noteq> BLC_STATUS_UNKNOWN
      \<and> (\<forall>k<i. \<forall>st. bus (motor_address k) = Response st
             \<longrightarrow> status_code st = BLC_STATUS_UNKNOWN)"
  then show "blc_status_code (fst (DetectMotors_probe E bus s)) = status_code sti"
    using DetectMotors_reference [where bus = bus and i = i, OF ok] by blast
next
  fix j st
  assume first: "i < MOTORS_MAX \<and> bus (motor_address i) = Response sti
      \<and> status_code sti \<noteq> BLC_STATUS_UNKNOWN
      \<and> (\<forall>k<i. \<forall>st. bus (motor_address k) = Response st
             \<longrightarrow> status_code st = BLC_STATUS_UNKNOWN)"
    and later: "i < j \<and> j < MOTORS_MAX \<and> bus (motor_address j) = Response st
      \<and> status_code st \<noteq> status_code sti"
  then show "blc_error_bitfield (DetectMotors E bus n s) AND BLC_ERROR_INCONSISTENT_SETTINGS E
      = BLC_ERROR_INCONSISTENT_SETTINGS E"
    using DetectMotors_later_differing [where bus = bus and i = i and j = j, OF ok] by blast
qed

theorem DetectMotors_inconsistent_settings_witness:
  "blc_error_bitfield
     (DetectMotors example_error_bits
        (\<lambda>a. if a = motor_address 0 \<or> a = motor_address 1
             then Response (status_with BLC_STATUS_V2_READY) else NoResponse)
        2 initial_state)
     AND BLC_ERROR_INCONSISTENT_SETTINGS example_error_bits = 0
   \<and> blc_status_code
       (fst (DetectMotors_probe example_error_bits
          (\<lambda>a. if a = motor_address 0 then Response (status_with BLC_STATUS_UNKNOWN)
               else if a = motor_address 1 then Response (status_with BLC_STATUS_V2_READY)
               else if a = motor_address 2 then Response (status_with BLC_STATUS_V3_READY)
               else NoResponse)
          initial_state)) = BLC_STATUS_V2_READY
   \<and> blc_error_bitfield
       (DetectMotors example_error_bits
          (\<lambda>a. if a = motor_address 0 then Response (status_with BLC_STATUS_UNKNOWN)
               else if a = motor_address 1 then Response (status_with BLC_STATUS_V2_READY)
               else if a = motor_address 2 then Response (status_with BLC_STATUS_V3_READY)
               else NoResponse)
          3 initial_state)
       AND BLC_ERROR_INCONSISTENT_SETTINGS example_error_bits
     = BLC_ERROR_INCONSISTENT_SETTINGS example_error_bits"
proof -
  let ?same = "\<lambda>a. if a = motor_address 0 \<or> a = motor_address 1
                    then Response (status_with BLC_STATUS_V2_READY) else NoResponse"
  let ?mixed = "\<lambda>a. if a = motor_address 0 then Response (status_with BLC_STATUS_UNKNOWN)
                     else if a = motor_address 1 then Response (status_with BLC_STATUS_V2_READY)
                     else if a = motor_address 2 then Response (status_with BLC_STATUS_V3_READY)
                     else NoResponse"
  have ok: "arrays_ok initial_state"
    by (simp add: arrays_ok_def initial_state_def MOTORS_MAX_def)
  have d1: "BLC_ERROR_INCONSISTENT_SETTINGS example_error_bits
              AND BLC_ERROR_MISSING_MOTOR example_error_bits = 0"
    and d2: "BLC_ERROR_INCONSISTENT_SETTINGS example_error_bits
              AND BLC_ERROR_EXTRA_MOTOR example_error_bits = 0"
    by (simp_all add: example_error_bits_def)
  have same: "\<forall>k<MOTORS_MAX. \<forall>st. ?same (motor_address k) = Response st
                \<longrightarrow> status_code st = BLC_STATUS_V2_READY"
    by (simp add: status_with_def)
  have first: "(1::nat) < MOTORS_MAX
      \<and> ?mixed (motor_address 1) = Response (status_with BLC_STATUS_V2_READY)
      \<and> status_code (status_with BLC_STATUS_V2_READY) \<noteq> BLC_STATUS_UNKNOWN
      \<and> (\<forall>k<1. \<forall>st. ?mixed (motor_address k) = Response st
             \<longrightarrow> status_code st = BLC_STATUS_UNKNOWN)"
    by (simp add: MOTORS_MAX_def motor_address_eq status_with_def BLC_STATUS_V2_READY_def
        BLC_STATUS_UNKNOWN_def)
  have later: "(1::nat) < 2 \<and> (2::nat) < MOTORS_MAX
      \<and> ?mixed (motor_address 2) = Response (status_with BLC_STATUS_V3_READY)
      \<and> status_code (status_with BLC_STATUS_V3_READY)
          \<noteq> status_code (status_with BLC_STATUS_V2_READY)"
    by (simp add: MOTORS_MAX_def motor_address_eq status_with_def BLC_STATUS_V2_READY_def
        BLC_STATUS_V3_READY_def)
  from DetectMotors_inconsistent_settings
    [where s = initial_state and E = example_error_bits and bus = ?same and n = 2
       and c = BLC_STATUS_V2_READY, OF ok d1 d2] same
  have a: "blc_error_bitfield (DetectMotors example_error_bits ?same 2 initial_state)
      AND BLC_ERROR_INCONSISTENT_SETTINGS example_error_bits = 0"
    by (simp add: initial_state_def)
  note T = DetectMotors_inconsistent_settings
    [where s = initial_state and E = example_error_bits and bus = ?mixed and n = 3
       and i = 1 and sti = "status_with BLC_STATUS_V2_READY", OF ok d1 d2,
     THEN conjunct2, rule_format, OF first]
  have sc: "status_code (status_with BLC_STATUS_V2_READY) = BLC_STATUS_V2_READY"
    by (simp add: status_with_def)
  from T [THEN conjunct1] T [THEN conjunct2, rule_format, OF later]
  have b: "blc_status_code (fst (DetectMotors_probe example_error_bits ?mixed initial_state))
        = BLC_STATUS_V2_READY
      \<and> blc_error_bitfield (DetectMotors example_error_bits ?mixed 3 initial_state)
          AND BLC_ERROR_INCONSISTENT_SETTINGS example_error_bits
        = BLC_ERROR_INCONSISTENT_SETTINGS example_error_bits"
    by (simp only: sc simp_thms)
  from a b show ?thesis by simp
qed

text \<open>
  The claim of C6 fails when the first responding slot reports \<open>BLC_STATUS_UNKNOWN\<close>:
  slot 0 responds first with code 0, slot 1 responds later with the differing code
  \<open>BLC_STATUS_V2_READY\<close>, and yet the reference code is that of slot 1 and the error
  bitfield stays empty.
\<close>

theorem DetectMotors_unknown_first_counterexample:
  "blc_status_code
     (fst (DetectMotors_probe example_error_bits
        (\<lambda>a. if a = motor_address 0 then Response (status_with BLC_STATUS_UNKNOWN)
             else if a = motor_address 1 then Response (status_with BLC_STATUS_V2_READY)
             else NoResponse)
        initial_state)) = BLC_STATUS_V2_READY
   \<and> BLC_STATUS_V2_READY \<noteq> BLC_STATUS_UNKNOWN
   \<and> blc_error_bitfield
       (DetectMotors example_error_bits
          (\<lambda>a. if a = motor_address 0 then Response (status_with BLC_STATUS_UNKNOWN)
               else if a = motor_address 1 then Response (status_with BLC_STATUS_V2_READY)
               else NoResponse)
          2 initial_state) = 0
   \<and> BLC_ERROR_INCONSISTENT_SETTINGS example_error_bits \<noteq> 0"
  by (simp add: detect_eval)

text \<open>
  C10, as the code has it. A responding slot whose status code is
  \<open>BLC_STATUS_UNKNOWN\<close> is marked present like any other responder and never becomes the
  reference: the reference is the code of the first responding slot with another code.
  Responders with code 0 that come before that slot are not compared, so a bus on which
  they all come before the responders of the one other code does not set the
  inconsistency bits. A responder with code 0 after the reference slot is compared with
  the reference and sets them.
\<close>

theorem DetectMotors_unknown_codes:
  assumes ok: "arrays_ok s"
    and d1: "BLC_ERROR_INCONSISTENT_SETTINGS E AND BLC_ERROR_MISSING_MOTOR E = 0"
    and d2: "BLC_ERROR_INCONSISTENT_SETTINGS E AND BLC_ERROR_EXTRA_MOTOR E = 0"
    and i: "i < MOTORS_MAX"
    and resp: "bus (motor_address i) = Response sti"
    and known: "status_code sti \<noteq> BLC_STATUS_UNKNOWN"
    and before: "\<forall>k<i. \<forall>st. bus (motor_address k) = Response st
                   \<longrightarrow> status_code st = BLC_STATUS_UNKNOWN"
  shows "(\<forall>k<MOTORS_MAX. \<forall>st. bus (motor_address k) = Response st
            \<longrightarrow> bit (motors (fst (DetectMotors_probe E bus s))) k)
       \<and> blc_status_code (fst (DetectMotors_probe E bus s)) = status_code sti
       \<and> ((\<forall>k. i < k \<and> k < MOTORS_MAX
              \<longrightarrow> (\<forall>st. bus (motor_address k) = Response st
                     \<longrightarrow> status_code st = status_code sti))
          \<longrightarrow> blc_error_bitfield (DetectMotors E bus n s) AND BLC_ERROR_INCONSISTENT_SETTINGS E
               = blc_error_bitfield s AND BLC_ERROR_INCONSISTENT_SETTINGS E)
       \<and> (\<forall>j st. i < j \<and> j < MOTORS_MAX \<and> bus (motor_address j) = Response st
              \<and> status_code st = BLC_STATUS_UNKNOWN
            \<longrightarrow> blc_error_bitfield (DetectMotors E bus n s)
                  AND BLC_ERROR_INCONSISTENT_SETTINGS E
                = BLC_ERROR_INCONSISTENT_SETTINGS E)"
proof (intro conjI impI allI)
  fix k st
  assume "k < MOTORS_MAX" and "bus (motor_address k) = Response st"
  then show "bit (motors (fst (DetectMotors_probe E bus s))) k"
    by (rule DetectMotors_present)
next
  from ok i resp known before
  show "blc_status_code (fst (DetectMotors_probe E bus s)) = status_code sti"
    by (rule DetectMotors_reference)
next
  assume "\<forall>k. i < k \<and> k < MOTORS_MAX
            \<longrightarrow> (\<forall>st. bus (motor_address k) = Response st
                   \<longrightarrow> status_code st = status_code sti)"
  with ok d1 d2 i resp known before
  show "blc_error_bitfield (DetectMotors E bus n s) AND BLC_ERROR_INCONSISTENT_SETTINGS E
      = blc_error_bitfield s AND BLC_ERROR_INCONSISTENT_SETTINGS E"
    by (rule DetectMotors_later_uniform)
next
  fix j st
  assume later: "i < j \<and> j < MOTORS_MAX \<and> bus (motor_address j) = Response st
      \<and> status_code st = BLC_STATUS_UNKNOWN"
  with known have "status_code st \<noteq> status_code sti"
    by simp
  with later
  show "blc_error_bitfield (DetectMotors E bus n s) AND BLC_ERROR_INCONSISTENT_SETTINGS E
      = BLC_ERROR_INCONSISTENT_SETTINGS E"
    using DetectMotors_later_differing [where bus = bus and j = j, OF ok i resp known before]
    by blast
qed

theorem DetectMotors_unknown_codes_witness:
  "bit (motors (fst (DetectMotors_probe example_error_bits
          (\<lambda>a. if a = motor_address 0 then Response (status_with BLC_STATUS_UNKNOWN)
               else if a = motor_address 1 \<or> a = motor_address 2
               then Response (status_with BLC_STATUS_V2_READY) else NoResponse)
          initial_state))) 0
   \<and> blc_status_code (fst (DetectMotors_probe example_error_bits
          (\<lambda>a. if a = motor_address 0 then Response (status_with BLC_STATUS_UNKNOWN)
               else if a = motor_address 1 \<or> a = motor_address 2
               then Response (status_with BLC_STATUS_V2_READY) else NoResponse)
          initial_state)) = BLC_STATUS_V2_READY
   \<and> blc_error_bitfield (DetectMotors example_error_bits
          (\<lambda>a. if a = motor_address 0 then Response (status_with BLC_STATUS_UNKNOWN)
               else if a = motor_address 1 \<or> a = motor_address 2
               then Response (status_with BLC_STATUS_V2_READY) else NoResponse)
          3 initial_state)
       AND BLC_ERROR_INCONSISTENT_SETTINGS example_error_bits = 0
   \<and> blc_error_bitfield (DetectMotors example_error_bits
          (\<lambda>a. if a = motor_address 0 \<or> a = motor_address 2
               then Response (status_with BLC_STATUS_UNKNOWN)
               else if a = motor_address 1
               then Response (status_with BLC_STATUS_V2_READY) else NoResponse)
          3 initial_state)
       AND BLC_ERROR_INCONSISTENT_SETTINGS example_error_bits
     = BLC_ERROR_INCONSISTENT_SETTINGS example_error_bits"
proof -
  let ?first = "\<lambda>a. if a = motor_address 0 then Response (status_with BLC_STATUS_UNKNOWN)
               else if a = motor_address 1 \<or> a = motor_address 2
               then Response (status_with BLC_STATUS_V2_READY) else NoResponse"
  let ?later = "\<lambda>a. if a = motor_address 0 \<or> a = motor_address 2
               then Response (status_with BLC_STATUS_UNKNOWN)
               else if a = motor_address 1
               then Response (status_with BLC_STATUS_V2_READY) else NoResponse"
  have ok: "arrays_ok initial_state"
    by (simp add: arrays_ok_def initial_state_def MOTORS_MAX_def)
  have d1: "BLC_ERROR_INCONSISTENT_SETTINGS example_error_bits
              AND BLC_ERROR_MISSING_MOTOR example_error_bits = 0"
    and d2: "BLC_ERROR_INCONSISTENT_SETTINGS example_error_bits
              AND BLC_ERROR_EXTRA_MOTOR example_error_bits = 0"
    by (simp_all add: example_error_bits_def)
  have i: "(1::nat) < MOTORS_MAX"
    by (simp add: MOTORS_MAX_def)
  have code: "status_code (status_with BLC_STATUS_V2_READY) = BLC_STATUS_V2_READY"
    by (simp add: status_with_def)
  have known: "status_code (status_with BLC_STATUS_V2_READY) \<noteq> BLC_STATUS_UNKNOWN"
    by (simp add: status_with_def BLC_STATUS_V2_READY_def BLC_STATUS_UNKNOWN_def)
  have resp1: "?first (motor_address 1) = Response (status_with BLC_STATUS_V2_READY)"
    by (simp add: motor_address_eq)
  have before1: "\<forall>k<1. \<forall>st. ?first (motor_address k) = Response st
                  \<longrightarrow> status_code st = BLC_STATUS_UNKNOWN"
    by (simp add: status_with_def)
  have after1: "\<forall>k. 1 < k \<and> k < MOTORS_MAX
                 \<longrightarrow> (\<forall>st. ?first (motor_address k) = Response st
                        \<longrightarrow> status_code st = status_code (status_with BLC_STATUS_V2_READY))"
    by (simp add: status_with_def motor_address_eq)
  have zero1: "?first (motor_address 0) = Response (status_with BLC_STATUS_UNKNOWN)"
    by simp
  have zero_in_range: "(0::nat) < MOTORS_MAX"
    by (simp add: MOTORS_MAX_def)
  have resp2: "?later (motor_address 1) = Response (status_with BLC_STATUS_V2_READY)"
    by (simp add: motor_address_eq)
  have before2: "\<forall>k<1. \<forall>st. ?later (motor_address k) = Response st
                  \<longrightarrow> status_code st = BLC_STATUS_UNKNOWN"
    by (simp add: status_with_def)
  have later2: "(1::nat) < 2 \<and> (2::nat) < MOTORS_MAX
      \<and> ?later (motor_address 2) = Response (status_with BLC_STATUS_UNKNOWN)
      \<and> status_code (status_with BLC_STATUS_UNKNOWN) = BLC_STATUS_UNKNOWN"
    by (simp add: MOTORS_MAX_def status_with_def)
  note A = DetectMotors_unknown_codes
    [where bus = ?first and E = example_error_bits and n = 3,
     OF ok d1 d2 i resp1 known before1]
  note B = DetectMotors_unknown_codes
    [where bus = ?later and E = example_error_bits and n = 3,
     OF ok d1 d2 i resp2 known before2]
  have e0: "blc_error_bitfield initial_state = 0"
    by (simp add: initial_state_def)
  from A [THEN conjunct1, rule_format, OF zero_in_range zero1]
    A [THEN conjunct2, THEN conjunct1]
    A [THEN conjunct2, THEN conjunct2, THEN conjunct1, THEN mp, OF after1]
    B [THEN conjunct2, THEN conjunct2, THEN conjunct2, rule_format, OF later2]
  show ?thesis
    by (simp only: code e0 zero_and_eq simp_thms)
qed

text \<open>
  The claim of C10 fails when a controller with code 0 comes after one with another
  code: slot 0 reports \<open>BLC_STATUS_V2_READY\<close>, slot 1 reports
  \<open>BLC_STATUS_UNKNOWN\<close>, and the pass sets the inconsistency bit.
\<close>

theorem DetectMotors_unknown_later_counterexample:
  "blc_error_bitfield initial_state = 0
   \<and> blc_error_bitfield
       (DetectMotors example_error_bits
          (\<lambda>a. if a = motor_address 0 then Response (status_with BLC_STATUS_V2_READY)
               else if a = motor_address 1 then Response (status_with BLC_STATUS_UNKNOWN)
               else NoResponse)
          2 initial_state) = BLC_ERROR_INCONSISTENT_SETTINGS example_error_bits
   \<and> BLC_ERROR_INCONSISTENT_SETTINGS example_error_bits \<noteq> 0"
  by (simp add: detect_eval)

section \<open>Feature negotiation\<close>

lemma identify_features_cong:
  assumes "blc_feature_bitfield s1 = blc_feature_bitfield s"
    and "setpoint_length s1 = setpoint_length s"
  shows "blc_feature_bitfield (identify_features c s1)
           = blc_feature_bitfield (identify_features c s)"
    and "setpoint_length (identify_features c s1) = setpoint_length (identify_features c s)"
  using assms
  by (simp_all add: identify_features_def case_V3_FAST_READY_def case_V3_READY_def
      case_V2_READY_def)

lemma DetectMotors_features_from_reference:
  "blc_feature_bitfield (DetectMotors E bus n s) =
     blc_feature_bitfield
       (identify_features (blc_status_code (fst (DetectMotors_probe E bus s))) s)"
  "setpoint_length (DetectMotors E bus n s) =
     setpoint_length
       (identify_features (blc_status_code (fst (DetectMotors_probe E bus s))) s)"
proof -
  obtain l s1 where probe: "DetectMotors_probe E bus s = (l, s1)"
    by (cases "DetectMotors_probe E bus s")
  have "blc_feature_bitfield (snd (DetectMotors_probe E bus s)) = blc_feature_bitfield s"
    and "setpoint_length (snd (DetectMotors_probe E bus s)) = setpoint_length s"
    by (simp_all add: DetectMotors_probe_def probe_slots_frame)
  with probe have same: "blc_feature_bitfield s1 = blc_feature_bitfield s"
    "setpoint_length s1 = setpoint_length s"
    by simp_all
  show "blc_feature_bitfield (DetectMotors E bus n s) =
     blc_feature_bitfield
       (identify_features (blc_status_code (fst (DetectMotors_probe E bus s))) s)"
    by (simp add: DetectMotors_def probe Let_def check_motor_count_frame
        identify_features_cong(1) [OF same])
  show "setpoint_length (DetectMotors E bus n s) =
     setpoint_length
       (identify_features (blc_status_code (fst (DetectMotors_probe E bus s))) s)"
    by (simp add: DetectMotors_def probe Let_def check_motor_count_frame
        identify_features_cong(2) [OF same])
qed

text \<open>
  C3: from a state with an empty feature bitfield and the 1-byte setpoint width, a
  discovery pass whose reference status code is \<open>BLC_STATUS_V3_FAST_READY\<close> ends with
  the 20 kHz, v3 and extended-status bits set and the 2-byte width; with
  \<open>BLC_STATUS_V3_READY\<close>, with the v3 and extended-status bits and the 2-byte width;
  with \<open>BLC_STATUS_V2_READY\<close>, with the extended-status bit alone and the 2-byte
  width; with any other reference code the feature bitfield stays empty and the width
  stays 1 byte.
\<close>

theorem DetectMotors_feature_cascade:
  assumes "blc_feature_bitfield s = 0" and "setpoint_length s = 1"
  shows "(blc_status_code (fst (DetectMotors_probe E bus s)) = BLC_STATUS_V3_FAST_READY \<longrightarrow>
            blc_feature_bitfield (DetectMotors E bus n s)
              = BLC_FEATURE_20KHz OR BLC_FEATURE_V3 OR BLC_FEATURE_EXTENDED_STATUS
            \<and> setpoint_length (DetectMotors E bus n s) = 2)
       \<and> (blc_status_code (fst (DetectMotors_probe E bus s)) = BLC_STATUS_V3_READY \<longrightarrow>
            blc_feature_bitfield (DetectMotors E bus n s)
              = BLC_FEATURE_V3 OR BLC_FEATURE_EXTENDED_STATUS
            \<and> setpoint_length (DetectMotors E bus n s) = 2)
       \<and> (blc_status_code (fst (DetectMotors_probe E bus s)) = BLC_STATUS_V2_READY \<longrightarrow>
            blc_feature_bitfield (DetectMotors E bus n s) = BLC_FEATURE_EXTENDED_STATUS
            \<and> setpoint_length (DetectMotors E bus n s) = 2)
       \<and> (blc_status_code (fst (DetectMotors_probe E bus s)) \<noteq> BLC_STATUS_V3_FAST_READY
            \<and> blc_status_code (fst (DetectMotors_probe E bus s)) \<noteq> BLC_STATUS_V3_READY
            \<and> blc_status_code (fst (DetectMotors_probe E bus s)) \<noteq> BLC_STATUS_V2_READY \<longrightarrow>
            blc_feature_bitfield (DetectMotors E bus n s) = 0
            \<and> setpoint_length (DetectMotors E bus n s) = 1)"
  using assms
  by (simp add: DetectMotors_features_from_reference identify_features_def
      case_V3_FAST_READY_def case_V3_READY_def case_V2_READY_def
      BLC_STATUS_V3_FAST_READY_def BLC_STATUS_V3_READY_def BLC_STATUS_V2_READY_def
      or.assoc)

lemma reference_of_uniform_bus:
  "blc_status_code (fst (DetectMotors_probe E (\<lambda>a. Response (status_with c)) initial_state)) = c"
  by (simp add: DetectMotors_probe_def probe_slots_def slots_unfolded probe_slot_def
      initial_state_def status_with_def zero_status_def Let_def BLC_STATUS_UNKNOWN_def)

theorem DetectMotors_feature_cascade_witness:
  "blc_feature_bitfield
     (DetectMotors example_error_bits (\<lambda>a. Response (status_with BLC_STATUS_V3_FAST_READY))
        8 initial_state) = 7
   \<and> setpoint_length
     (DetectMotors example_error_bits (\<lambda>a. Response (status_with BLC_STATUS_V3_FAST_READY))
        8 initial_state) = 2
   \<and> blc_feature_bitfield
     (DetectMotors example_error_bits (\<lambda>a. Response (status_with BLC_STATUS_V3_READY))
        8 initial_state) = 3
   \<and> setpoint_length
     (DetectMotors example_error_bits (\<lambda>a. Response (status_with BLC_STATUS_V3_READY))
        8 initial_state) = 2
   \<and> blc_feature_bitfield
     (DetectMotors example_error_bits (\<lambda>a. Response (status_with BLC_STATUS_V2_READY))
        8 initial_state) = 1
   \<and> setpoint_length
     (DetectMotors example_error_bits (\<lambda>a. Response (status_with BLC_STATUS_V2_READY))
        8 initial_state) = 2
   \<and> blc_feature_bitfield
     (DetectMotors example_error_bits (\<lambda>a. Response (status_with BLC_STATUS_RUNNING))
        8 initial_state) = 0
   \<and> setpoint_length
     (DetectMotors example_error_bits (\<lambda>a. Response (status_with BLC_STATUS_RUNNING))
        8 initial_state) = 1"
proof -
  have f: "blc_feature_bitfield initial_state = 0" and l: "setpoint_length initial_state = 1"
    by (simp_all add: initial_state_def)
  note T = DetectMotors_feature_cascade [where E = example_error_bits and n = 8, OF f l]
  show ?thesis
    using T [where bus = "\<lambda>a. Response (status_with BLC_STATUS_V3_FAST_READY)"]
      T [where bus = "\<lambda>a. Response (status_with BLC_STATUS_V3_READY)"]
      T [where bus = "\<lambda>a. Response (status_with BLC_STATUS_V2_READY)"]
      T [where bus = "\<lambda>a. Response (status_with BLC_STATUS_RUNNING)"]
    by (simp add: reference_of_uniform_bus BLC_STATUS_V3_FAST_READY_def BLC_STATUS_V3_READY_def
        BLC_STATUS_V2_READY_def BLC_STATUS_RUNNING_def BLC_FEATURE_EXTENDED_STATUS_def
        BLC_FEATURE_V3_def BLC_FEATURE_20KHz_def)
qed

section \<open>The setpoint store\<close>

lemma unat_low3: "unat (ucast (v::16 word) AND (0x7::8 word)) = unat v mod 8"
proof -
  have m: "(0x7::8 word) = mask 3"
    by (simp add: mask_eq_exp_minus_1)
  have "unat (ucast v AND (mask 3::8 word)) = take_bit 3 (unat v)"
    by (simp add: unsigned_ucast_eq unsigned_take_bit_eq flip: take_bit_eq_mask)
  then show ?thesis
    by (simp add: m take_bit_eq_mod)
qed

lemma and7_idem: "(w::8 word) AND 0x7 AND 0x7 = w AND 0x7"
  by (simp add: and.assoc)

lemma unat_bits_3_up: "unat (ucast (drop_bit 3 (v::16 word)) :: 8 word) = unat v div 8 mod 256"
proof -
  have "unat (ucast (drop_bit 3 v) :: 8 word) = take_bit 8 (drop_bit 3 (unat v))"
    by (simp only: unsigned_ucast_eq unat_drop_bit_eq) simp
  then show ?thesis
    by (simp add: drop_bit_eq_div take_bit_eq_mod)
qed

lemma split_2048: "(n::nat) mod 8 + 8 * (n div 8 mod 256) = n mod 2048"
proof -
  have "n mod (8 * 256) = 8 * (n div 8 mod 256) + n mod 8"
    by (rule mod_mult2_eq)
  then show ?thesis by simp
qed

lemma SetMotorSetpoint_stored:
  assumes "unat address < MOTORS_MAX" and "arrays_ok s"
  shows "setpoints (SetMotorSetpoint address v s) ! unat address =
           (setpoints s ! unat address)
             \<lparr>bits_2_to_0 := ucast v AND 0x7, bits_11_to_3 := ucast (drop_bit 3 v)\<rparr>"
  using assms by (simp add: SetMotorSetpoint_def arrays_ok_def Let_def)

text \<open>
  C4: for an in-range slot, storing a setpoint with \<open>SetMotorSetpoint\<close> and decoding
  the two stored bytes (the low three bits of one, plus the other shifted left by three)
  gives the value modulo 2048; hence a value of at most 2047 comes back unchanged and a
  larger one loses the bits above bit 10, without any error.
\<close>

theorem SetMotorSetpoint_roundtrip:
  assumes "unat address < MOTORS_MAX" and "arrays_ok s"
  shows "spec_decode_setpoint (setpoints (SetMotorSetpoint address v s) ! unat address)
           = unat v mod 2048
         \<and> (unat v \<le> 2047 \<longrightarrow>
              spec_decode_setpoint (setpoints (SetMotorSetpoint address v s) ! unat address)
                = unat v)"
proof -
  have "spec_decode_setpoint (setpoints (SetMotorSetpoint address v s) ! unat address)
          = unat v mod 8 + 8 * (unat v div 8 mod 256)"
    by (simp add: SetMotorSetpoint_stored [OF assms] spec_decode_setpoint_def and7_idem
        unat_low3 unat_bits_3_up push_bit_eq_mult)
  then have "spec_decode_setpoint (setpoints (SetMotorSetpoint address v s) ! unat address)
          = unat v mod 2048"
    by (simp only: split_2048)
  then show ?thesis by simp
qed

lemma arrays_ok_initial: "arrays_ok initial_state"
  by (simp add: arrays_ok_def initial_state_def MOTORS_MAX_def)

theorem SetMotorSetpoint_roundtrip_witness:
  "spec_decode_setpoint (setpoints (SetMotorSetpoint 2 1234 initial_state) ! 2) = 1234
   \<and> spec_decode_setpoint (setpoints (SetMotorSetpoint 2 43981 initial_state) ! 2) = 973"
  using SetMotorSetpoint_roundtrip [where address = 2 and s = initial_state and v = 1234]
    SetMotorSetpoint_roundtrip [where address = 2 and s = initial_state and v = 43981]
  by (simp add: arrays_ok_initial MOTORS_MAX_def)

text \<open>
  C5: for a slot index of \<open>MOTORS_MAX\<close> or more, \<open>SetMotorSetpoint\<close> returns the
  state as it was: no stored setpoint and nothing else changes, and no error is raised.
\<close>

theorem SetMotorSetpoint_out_of_range:
  "MOTORS_MAX \<le> unat address \<Longrightarrow> SetMotorSetpoint address v s = s"
  by (simp add: SetMotorSetpoint_def)

theorem SetMotorSetpoint_out_of_range_witness:
  "MOTORS_MAX \<le> unat (8 :: 8 word) \<and> SetMotorSetpoint 8 2047 initial_state = initial_state
   \<and> SetMotorSetpoint 255 2047 initial_state = initial_state"
  using SetMotorSetpoint_out_of_range [where address = 8 and v = 2047 and s = initial_state]
    SetMotorSetpoint_out_of_range [where address = 255 and v = 2047 and s = initial_state]
  by (simp add: MOTORS_MAX_def)

section \<open>The transmission chain\<close>

lemma tx_chain_out_of_bounds:
  "MOTORS_MAX \<le> unat (tx_index t) \<Longrightarrow> tx_chain bus t s = ([t], Inl OutOfBounds)"
  by (subst tx_chain.simps) (simp add: I2CTransfer_def)

lemma I2CTransfer_in_bounds:
  assumes "unat (tx_index t) < MOTORS_MAX" and "unat (rx_index t) < MOTORS_MAX"
  shows "\<exists>s1. I2CTransfer bus t s = Inr s1
           \<and> comms_in_progress s1 = comms_in_progress s
           \<and> setpoint_length s1 = setpoint_length s
           \<and> blc_error_bitfield s1 = blc_error_bitfield s"
  using assms by (simp add: I2CTransfer_def split: i2c_result.splits)

lemma I2CTransfer_frame:
  assumes "I2CTransfer bus t s = Inr s1"
  shows "comms_in_progress s1 = comms_in_progress s"
    and "blc_error_bitfield s1 = blc_error_bitfield s"
    and "unat (tx_index t) < MOTORS_MAX"
  using assms by (auto simp: I2CTransfer_def split: if_splits i2c_result.splits)

text \<open>
  The chain that starts with the transaction for the slot under the cursor, when that
  slot is in range: it visits the slots from the cursor down to 0 and ends without error.
\<close>

lemma tx_chain_descending:
  assumes "tx_index t = comms_in_progress s" and "rx_index t = comms_in_progress s"
    and "unat (comms_in_progress s) < MOTORS_MAX"
  shows "\<exists>s'. snd (tx_chain bus t s) = Inr s'
           \<and> blc_error_bitfield s' = blc_error_bitfield s
           \<and> map (\<lambda>t. unat (tx_index t)) (fst (tx_chain bus t s))
               = rev [0..<Suc (unat (comms_in_progress s))]
           \<and> map (\<lambda>t. unat (rx_index t)) (fst (tx_chain bus t s))
               = rev [0..<Suc (unat (comms_in_progress s))]"
  using assms
proof (induction "unat (comms_in_progress s)" arbitrary: t s)
  case 0
  then have c0: "comms_in_progress s = 0"
    by (simp add: unat_eq_0)
  from 0 obtain s1 where tr: "I2CTransfer bus t s = Inr s1"
    and c1: "comms_in_progress s1 = comms_in_progress s"
    and e1: "blc_error_bitfield s1 = blc_error_bitfield s"
    using I2CTransfer_in_bounds [of t bus s] by auto
  from c0 c1 have "TxNextMotorSetpoint s1 = (None, s1\<lparr>comms_in_progress := 0 - 1\<rparr>)"
    by (simp add: TxNextMotorSetpoint_def Let_def)
  with tr e1 0 c0 show ?case
    by (simp add: tx_chain.simps [of bus t s])
next
  case (Suc k)
  then have cpos: "comms_in_progress s \<noteq> 0"
    by auto
  from Suc obtain s1 where tr: "I2CTransfer bus t s = Inr s1"
    and c1: "comms_in_progress s1 = comms_in_progress s"
    and e1: "blc_error_bitfield s1 = blc_error_bitfield s"
    using I2CTransfer_in_bounds [of t bus s] by auto
  let ?s2 = "s1\<lparr>comms_in_progress := comms_in_progress s - 1\<rparr>"
  let ?t' = "TxMotorSetpoint (comms_in_progress ?s2) ?s2"
  from cpos c1 have nx: "TxNextMotorSetpoint s1 = (Some ?t', ?s2)"
    by (simp add: TxNextMotorSetpoint_def Let_def)
  from cpos Suc.hyps(2) have k: "unat (comms_in_progress ?s2) = k"
    by (simp add: unat_minus_one)
  from Suc.prems(3) Suc.hyps(2) have kb: "k < MOTORS_MAX"
    by simp
  have "\<exists>s'. snd (tx_chain bus ?t' ?s2) = Inr s'
           \<and> blc_error_bitfield s' = blc_error_bitfield ?s2
           \<and> map (\<lambda>t. unat (tx_index t)) (fst (tx_chain bus ?t' ?s2))
               = rev [0..<Suc (unat (comms_in_progress ?s2))]
           \<and> map (\<lambda>t. unat (rx_index t)) (fst (tx_chain bus ?t' ?s2))
               = rev [0..<Suc (unat (comms_in_progress ?s2))]"
    using k kb by (intro Suc.hyps(1)) (simp_all add: TxMotorSetpoint_def)
  then obtain s' where r: "snd (tx_chain bus ?t' ?s2) = Inr s'"
    and e: "blc_error_bitfield s' = blc_error_bitfield s"
    and m: "map (\<lambda>t. unat (tx_index t)) (fst (tx_chain bus ?t' ?s2)) = rev [0..<Suc k]"
      "map (\<lambda>t. unat (rx_index t)) (fst (tx_chain bus ?t' ?s2)) = rev [0..<Suc k]"
    using k e1 by auto
  have unfold: "tx_chain bus t s =
      (t # fst (tx_chain bus ?t' ?s2), snd (tx_chain bus ?t' ?s2))"
    by (subst tx_chain.simps) (simp add: tr nx split: prod.splits)
  from r e m Suc.prems(1,2) Suc.hyps(2) show ?case
    by (simp add: unfold)
qed

lemma unat_pred: "(n::8 word) \<noteq> 0 \<Longrightarrow> unat (n - 1) = unat n - 1"
  by (simp add: unat_minus_one)

lemma unat_wrapped: "unat (- 1 :: 8 word) = 255"
  by (simp add: unsigned_minus_1_eq_mask mask_eq_exp_minus_1)

lemma transmit_in_bounds:
  assumes "1 \<le> unat (n_motors s)" and "unat (n_motors s) \<le> MOTORS_MAX"
  shows "\<exists>s'. snd (transmit bus s) = Inr s'
           \<and> blc_error_bitfield s' = blc_error_bitfield s
           \<and> map (\<lambda>t. unat (tx_index t)) (fst (transmit bus s)) = rev [0..<unat (n_motors s)]
           \<and> map (\<lambda>t. unat (rx_index t)) (fst (transmit bus s)) = rev [0..<unat (n_motors s)]"
proof -
  let ?s1 = "s\<lparr>comms_in_progress := n_motors s - 1\<rparr>"
  let ?t = "TxMotorSetpoint (comms_in_progress ?s1) ?s1"
  from assms(1) have "n_motors s \<noteq> 0" by auto
  then have c: "unat (comms_in_progress ?s1) = unat (n_motors s) - 1"
    by (simp add: unat_pred)
  with assms have b: "unat (comms_in_progress ?s1) < MOTORS_MAX"
    and suc: "Suc (unat (comms_in_progress ?s1)) = unat (n_motors s)"
    by simp_all
  have "tx_index ?t = comms_in_progress ?s1" and "rx_index ?t = comms_in_progress ?s1"
    by (simp_all add: TxMotorSetpoint_def)
  from tx_chain_descending [OF this b, of bus]
  have "\<exists>s'. snd (tx_chain bus ?t ?s1) = Inr s'
           \<and> blc_error_bitfield s' = blc_error_bitfield ?s1
           \<and> map (\<lambda>t. unat (tx_index t)) (fst (tx_chain bus ?t ?s1))
               = rev [0..<unat (n_motors s)]
           \<and> map (\<lambda>t. unat (rx_index t)) (fst (tx_chain bus ?t ?s1))
               = rev [0..<unat (n_motors s)]"
    by (simp only: suc)
  then show ?thesis
    by (simp add: transmit_def TxMotorSetpoints_def Let_def)
qed

lemma transmit_out_of_bounds:
  assumes "n_motors s = 0 \<or> MOTORS_MAX < unat (n_motors s)"
  shows "transmit bus s =
           ([TxMotorSetpoint (n_motors s - 1) (s\<lparr>comms_in_progress := n_motors s - 1\<rparr>)],
            Inl OutOfBounds)"
proof -
  have "MOTORS_MAX \<le> unat (n_motors s - 1)"
  proof (cases "n_motors s = 0")
    case True
    then show ?thesis by (simp add: MOTORS_MAX_def unat_wrapped)
  next
    case False
    with assms show ?thesis by (simp add: unat_pred)
  qed
  then show ?thesis
    by (simp add: transmit_def TxMotorSetpoints_def Let_def tx_chain_out_of_bounds
        TxMotorSetpoint_def)
qed

text \<open>
  C7: the claim is that for every stored motor count \<open>N\<close> the pipeline issues exactly
  \<open>N\<close> transactions, for the slots \<open>N - 1\<close> down to 0. With the count 0, which is the
  value of \<open>n_motors_\<close> at program start, \<open>TxMotorSetpoints\<close> computes the cursor
  \<open>0 - 1 = 255\<close> and issues a transaction for slot 255, whose buffers lie outside the
  eight-entry arrays.
\<close>

theorem transmit_zero_motors:
  "n_motors initial_state = 0
   \<and> transmit bus initial_state =
       ([\<lparr>i2c_address = 592, tx_index = 255, tx_length = 1, rx_index = 255\<rparr>],
        Inl OutOfBounds)"
  using transmit_out_of_bounds [of initial_state bus]
  by (simp add: initial_state_def TxMotorSetpoint_def motor_address_def
      MOTORS_BASE_ADDRESS_def unat_wrapped)

text \<open>
  C9: with the stored motor count 0, \<open>TxMotorSetpoints\<close> sets the cursor to 255 and
  issues a transaction whose transmit and receive buffers are entry 255 of the arrays;
  and the chain ends without an access outside the eight-entry arrays exactly when the
  count is between 1 and \<open>MOTORS_MAX\<close>.
\<close>

theorem TxMotorSetpoints_bounds:
  "(n_motors s = 0 \<longrightarrow>
      comms_in_progress (snd (TxMotorSetpoints s)) = 255
      \<and> tx_index (fst (TxMotorSetpoints s)) = 255
      \<and> rx_index (fst (TxMotorSetpoints s)) = 255
      \<and> fst (transmit bus s) = [fst (TxMotorSetpoints s)])
   \<and> ((\<exists>s'. snd (transmit bus s) = Inr s')
        \<longleftrightarrow> 1 \<le> unat (n_motors s) \<and> unat (n_motors s) \<le> MOTORS_MAX)"
proof (intro conjI impI)
  assume z: "n_motors s = 0"
  then show "comms_in_progress (snd (TxMotorSetpoints s)) = 255"
    and "tx_index (fst (TxMotorSetpoints s)) = 255"
    and "rx_index (fst (TxMotorSetpoints s)) = 255"
    by (simp_all add: TxMotorSetpoints_def TxMotorSetpoint_def Let_def)
  from z transmit_out_of_bounds [of s bus]
  show "fst (transmit bus s) = [fst (TxMotorSetpoints s)]"
    by (simp add: TxMotorSetpoints_def Let_def)
next
  show "(\<exists>s'. snd (transmit bus s) = Inr s')
          \<longleftrightarrow> 1 \<le> unat (n_motors s) \<and> unat (n_motors s) \<le> MOTORS_MAX"
  proof (cases "1 \<le> unat (n_motors s) \<and> unat (n_motors s) \<le> MOTORS_MAX")
    case True
    with transmit_in_bounds [of s bus] show ?thesis by blast
  next
    case False
    then have "unat (n_motors s) = 0 \<or> MOTORS_MAX < unat (n_motors s)"
      by linarith
    then have "n_motors s = 0 \<or> MOTORS_MAX < unat (n_motors s)"
      by (simp add: unat_eq_0)
    from transmit_out_of_bounds [OF this, of bus] False show ?thesis by simp
  qed
qed

theorem TxMotorSetpoints_bounds_witness:
  "n_motors initial_state = 0
   \<and> comms_in_progress (snd (TxMotorSetpoints initial_state)) = 255
   \<and> tx_index (fst (TxMotorSetpoints initial_state)) = 255
   \<and> rx_index (fst (TxMotorSetpoints initial_state)) = 255
   \<and> fst (transmit (\<lambda>a. NoResponse) initial_state) = [fst (TxMotorSetpoints initial_state)]
   \<and> \<not> (\<exists>s'. snd (transmit (\<lambda>a. NoResponse) initial_state) = Inr s')"
  using TxMotorSetpoints_bounds [of initial_state "\<lambda>a. NoResponse"]
  by (simp add: initial_state_def)

section \<open>The error bitfield only grows\<close>

lemma and_or_absorb: "(a::8 word) AND (a OR b) = a"
  by (auto simp: bit_eq_iff bit_and_iff bit_or_iff)

lemma and_or_absorb3: "(a::8 word) AND (a OR b OR c OR d) = a"
  by (auto simp: bit_eq_iff bit_and_iff bit_or_iff)

lemma DetectMotors_error_kept:
  "blc_error_bitfield s AND blc_error_bitfield (DetectMotors E bus n s) = blc_error_bitfield s"
proof -
  let ?e = "blc_error_bitfield (snd (DetectMotors_probe E bus s))"
  have "?e = blc_error_bitfield s \<or> ?e = blc_error_bitfield s OR BLC_ERROR_INCONSISTENT_SETTINGS E"
    using probe_slots_error [of E bus "[0..<MOTORS_MAX]"
        "(\<lparr>motors = 0, blc_status_code = BLC_STATUS_UNKNOWN\<rparr>, s)"]
    by (simp add: DetectMotors_probe_def)
  then have "blc_error_bitfield s AND ?e = blc_error_bitfield s"
    by (auto simp: and_or_absorb)
  then have "blc_error_bitfield s AND (?e OR x OR y) = blc_error_bitfield s" for x y
    by (auto simp: bit_eq_iff bit_and_iff bit_or_iff)
  then show ?thesis
    by (simp only: DetectMotors_error)
qed

lemma SetMotorSetpoint_error_kept:
  "blc_error_bitfield (SetMotorSetpoint address v s) = blc_error_bitfield s"
  by (simp add: SetMotorSetpoint_def Let_def)

lemma TxNextMotorSetpoint_error_kept:
  "blc_error_bitfield (snd (TxNextMotorSetpoint s)) = blc_error_bitfield s"
  by (simp add: TxNextMotorSetpoint_def Let_def)

lemma tx_chain_error_kept:
  "snd (tx_chain bus t s) = Inr s' \<Longrightarrow> blc_error_bitfield s' = blc_error_bitfield s"
proof (induction bus t s rule: tx_chain.induct)
  case (1 bus t s)
  show ?case
  proof (cases "I2CTransfer bus t s")
    case (Inl e)
    with "1.prems" show ?thesis
      by (simp add: tx_chain.simps [of bus t s])
  next
    case (Inr s1)
    then have e1: "blc_error_bitfield s1 = blc_error_bitfield s"
      by (rule I2CTransfer_frame(2))
    obtain x s2 where nx: "TxNextMotorSetpoint s1 = (x, s2)"
      by (cases "TxNextMotorSetpoint s1")
    with TxNextMotorSetpoint_error_kept [of s1] e1
    have e2: "blc_error_bitfield s2 = blc_error_bitfield s"
      by simp
    show ?thesis
    proof (cases x)
      case None
      with "1.prems" Inr nx e2 show ?thesis
        by (simp add: tx_chain.simps [of bus t s])
    next
      case (Some t')
      with "1.prems" Inr nx have "snd (tx_chain bus t' s2) = Inr s'"
        by (simp add: tx_chain.simps [of bus t s] split: prod.splits)
      with "1.IH" [OF Inr nx [symmetric] Some] e2 show ?thesis
        by simp
    qed
  qed
qed

lemma transmit_error_kept:
  "snd (transmit bus s) = Inr s' \<Longrightarrow> blc_error_bitfield s' = blc_error_bitfield s"
  using tx_chain_error_kept
    [of bus "TxMotorSetpoint (n_motors s - 1) (s\<lparr>comms_in_progress := n_motors s - 1\<rparr>)"
        "s\<lparr>comms_in_progress := n_motors s - 1\<rparr>" s']
  by (simp add: transmit_def TxMotorSetpoints_def Let_def)

lemma apply_operation_error_kept:
  "apply_operation E x s = Inr s' \<Longrightarrow>
     blc_error_bitfield s AND blc_error_bitfield s' = blc_error_bitfield s"
  by (cases x)
    (auto simp: DetectMotors_error_kept SetMotorSetpoint_error_kept dest: transmit_error_kept)

lemma and_trans:
  "(a::8 word) AND b = a \<Longrightarrow> b AND c = b \<Longrightarrow> a AND c = a"
  by (metis and.assoc)

text \<open>
  C8: the error bitfield is monotone. Through any sequence of calls of
  \<open>DetectMotors\<close>, \<open>SetMotorSetpoint\<close>, \<open>TxMotorSetpoints\<close> (with the chain of its
  completions) and \<open>BLCErrorBitfield\<close>, every bit that the accessor showed before is
  still shown after: no operation of the module clears a bit.
\<close>

theorem error_bitfield_monotone:
  "run_operations E xs s = Inr s' \<Longrightarrow>
     BLCErrorBitfield s AND BLCErrorBitfield s' = BLCErrorBitfield s"
proof (induction xs arbitrary: s)
  case Nil
  then show ?case by simp
next
  case (Cons x xs)
  then obtain s1 where step: "apply_operation E x s = Inr s1"
    and rest: "run_operations E xs s1 = Inr s'"
    by (auto split: sum.splits)
  from apply_operation_error_kept [OF step] Cons.IH [OF rest]
  show ?case
    by (simp add: BLCErrorBitfield_def and_trans)
qed

theorem error_bitfield_monotone_witness:
  "\<exists>s'. run_operations example_error_bits
          [CallSetMotorSetpoint 0 100,
           CallTxMotorSetpoints (\<lambda>a. Response (status_with BLC_STATUS_V2_READY)),
           CallDetectMotors
             (\<lambda>a. if a = motor_address 0 then Response (status_with BLC_STATUS_V2_READY)
                  else Response (status_with BLC_STATUS_V3_READY)) 2,
           CallBLCErrorBitfield]
          (DetectMotors example_error_bits (\<lambda>a. NoResponse) 2 initial_state) = Inr s'
        \<and> BLCErrorBitfield (DetectMotors example_error_bits (\<lambda>a. NoResponse) 2 initial_state)
            = BLC_ERROR_MISSING_MOTOR example_error_bits
        \<and> BLCErrorBitfield (DetectMotors example_error_bits (\<lambda>a. NoResponse) 2 initial_state)
            AND BLCErrorBitfield s'
            = BLCErrorBitfield (DetectMotors example_error_bits (\<lambda>a. NoResponse) 2 initial_state)"
proof -
  let ?s = "DetectMotors example_error_bits (\<lambda>a. NoResponse) 2 initial_state"
  let ?ops = "[CallSetMotorSetpoint 0 100,
           CallTxMotorSetpoints (\<lambda>a. Response (status_with BLC_STATUS_V2_READY)),
           CallDetectMotors
             (\<lambda>a. if a = motor_address 0 then Response (status_with BLC_STATUS_V2_READY)
                  else Response (status_with BLC_STATUS_V3_READY)) 2,
           CallBLCErrorBitfield]"
  have n: "n_motors ?s = 2"
    by (simp add: DetectMotors_def check_motor_count_def Let_def split: prod.splits)
  have "1 \<le> unat (n_motors (SetMotorSetpoint 0 100 ?s))"
    and "unat (n_motors (SetMotorSetpoint 0 100 ?s)) \<le> MOTORS_MAX"
    using n by (simp_all add: SetMotorSetpoint_def Let_def MOTORS_MAX_def)
  from transmit_in_bounds [OF this]
  obtain s1 where "snd (transmit (\<lambda>a. Response (status_with BLC_STATUS_V2_READY))
      (SetMotorSetpoint 0 100 ?s)) = Inr s1"
    by blast
  then have run: "\<exists>s'. run_operations example_error_bits ?ops ?s = Inr s'"
    by simp
  have e: "BLCErrorBitfield ?s = BLC_ERROR_MISSING_MOTOR example_error_bits"
    by (simp add: BLCErrorBitfield_def detect_eval)
  from run obtain s' where r: "run_operations example_error_bits ?ops ?s = Inr s'" ..
  from error_bitfield_monotone [OF r] r e show ?thesis
    by blast
qed

end
